theory Spec2Isabelle
  imports Complex_Main "HOL-Library.Signed_Division"
begin

section \<open>MediaData: audio and video frame buffers\<close>

text \<open>
  A shallow embedding of \<^verbatim>\<open>MediaData.cpp\<close> (namespace \<^verbatim>\<open>mozilla\<close>): the audio frame
  (\<^verbatim>\<open>AudioData\<close>), the plane and picture validation of \<^verbatim>\<open>VideoData\<close>, its
  \<^verbatim>\<open>CreateAndCopyData\<close>, and \<^verbatim>\<open>MediaRawData::Clone\<close>.

  Conventions. Unsigned machine integers are naturals and signed ones integers; every
  place where the C++ truncates or wraps is written with an explicit \<open>mod\<close>.
  \<^verbatim>\<open>size_t\<close> is 64 bits wide. The model is the release build: \<^verbatim>\<open>MOZ_ASSERT\<close> and
  \<^verbatim>\<open>MOZ_DIAGNOSTIC_ASSERT\<close> check nothing there and are recorded as separate
  predicates where a property depends on them; \<^verbatim>\<open>MOZ_RELEASE_ASSERT\<close> ends the
  process and is the \<open>Fatal\<close> branch of an \<open>outcome\<close>.
\<close>

subsection \<open>Faults\<close>

datatype fault =
    DivisionByZero
  | OutOfBounds
  | ReleaseAssert string

datatype 'a outcome =
    Fatal fault
  | Done 'a

subsection \<open>Video planes\<close>

text \<open>
  \<^verbatim>\<open>PlanarYCbCrImage::MAX_DIMENSION\<close>, \<^verbatim>\<open>MAX_VIDEO_WIDTH\<close> and \<^verbatim>\<open>MAX_VIDEO_HEIGHT\<close>
  are declared in headers that are not part of the sources at hand, so the functions
  that read them take them as a parameter.
\<close>

record VideoLimits =
  MAX_DIMENSION :: nat
  MAX_VIDEO_WIDTH :: nat
  MAX_VIDEO_HEIGHT :: nat

text \<open>
  \<^verbatim>\<open>VideoData::YCbCrBuffer::Plane\<close>: the sample bytes and the \<^verbatim>\<open>uint32_t\<close> sizes. In
  \<open>ValidatePlane\<close> the product of width and height is a 32-bit product and wraps.
\<close>

record Plane =
  mData :: "nat list"
  mWidth :: nat
  mHeight :: nat
  mStride :: nat
  mSkip :: nat

definition ValidatePlane :: "VideoLimits \<Rightarrow> Plane \<Rightarrow> bool" where
  "ValidatePlane aLimits aPlane \<longleftrightarrow>
     mWidth aPlane \<le> MAX_DIMENSION aLimits \<and>
     mHeight aPlane \<le> MAX_DIMENSION aLimits \<and>
     (mWidth aPlane * mHeight aPlane) mod 2 ^ 32 < MAX_VIDEO_WIDTH aLimits * MAX_VIDEO_HEIGHT aLimits \<and>
     mStride aPlane > 0 \<and> mWidth aPlane \<le> mStride aPlane"


subsection \<open>Checked 32-bit arithmetic\<close>

text \<open>
  Modelled from the spec: \<^verbatim>\<open>CheckedUint32\<close> (\<^verbatim>\<open>mozilla/CheckedInt.h\<close>) is not among the
  sources; the spec calls it checked, overflow-safe arithmetic. A checked value is
  \<open>None\<close> once a conversion or an addition has left the range of \<^verbatim>\<open>uint32_t\<close>, and
  stays so.
\<close>

type_synonym CheckedUint32 = "nat option"

text \<open>Modelled from the spec: the checked conversion of a signed value to \<^verbatim>\<open>uint32_t\<close>.\<close>

definition CheckedUint32 :: "int \<Rightarrow> CheckedUint32" where
  "CheckedUint32 v = (if 0 \<le> v \<and> v < 2 ^ 32 then Some (nat v) else None)"

text \<open>Modelled from the spec: the checked sum, invalid if an operand is or if it overflows.\<close>

definition CheckedUint32_add :: "CheckedUint32 \<Rightarrow> CheckedUint32 \<Rightarrow> CheckedUint32" where
  "CheckedUint32_add a b =
     (case (a, b) of
        (Some x, Some y) \<Rightarrow> (if x + y < 2 ^ 32 then Some (x + y) else None)
      | _ \<Rightarrow> None)"

subsection \<open>Results\<close>

datatype nsresult =
    NS_OK
  | NS_ERROR_INVALID_ARG
  | NS_ERROR_OUT_OF_MEMORY
  | NS_ERROR_FAILURE

definition NS_FAILED :: "nsresult \<Rightarrow> bool" where
  "NS_FAILED rv \<longleftrightarrow> rv \<noteq> NS_OK"

record MediaResult =
  mCode :: nsresult
  mMessage :: string

definition MediaResult :: "nsresult \<Rightarrow> string \<Rightarrow> MediaResult" where
  "MediaResult rv msg = \<lparr>mCode = rv, mMessage = msg\<rparr>"

subsection \<open>Buffer and picture validation\<close>

record IntRect =
  x :: int
  y :: int
  width :: int
  height :: int

datatype ColorDepth = COLOR_8 | COLOR_10 | COLOR_12 | COLOR_16

datatype ChromaSubsampling = FULL | HALF_WIDTH | HALF_WIDTH_AND_HEIGHT

datatype TransferFunction = BT709 | SRGB | PQ | HLG

text \<open>
  \<^verbatim>\<open>VideoData::YCbCrBuffer\<close>: the planes Y, Cb, Cr (\<^verbatim>\<open>mPlanes[0..2]\<close>) and the colour
  description of the frame; the colour enumerations that are only passed on are kept
  as their numeric codes.
\<close>

record YCbCrBuffer =
  mPlanes0 :: Plane
  mPlanes1 :: Plane
  mPlanes2 :: Plane
  mYUVColorSpace :: nat
  mColorPrimaries :: nat
  mColorDepth :: ColorDepth
  mColorRange :: nat
  mChromaSubsampling :: ChromaSubsampling

definition ValidateBufferAndPicture :: "VideoLimits \<Rightarrow> YCbCrBuffer \<Rightarrow> IntRect \<Rightarrow> MediaResult" where
  "ValidateBufferAndPicture aLimits aBuffer aPicture =
     (if mWidth (mPlanes1 aBuffer) \<noteq> mWidth (mPlanes2 aBuffer) \<or>
         mHeight (mPlanes1 aBuffer) \<noteq> mHeight (mPlanes2 aBuffer)
      then MediaResult NS_ERROR_INVALID_ARG ''Chroma planes with different sizes''
      else if width aPicture \<le> 0 \<or> height aPicture \<le> 0
      then MediaResult NS_ERROR_INVALID_ARG ''Empty picture rect''
      else if \<not> ValidatePlane aLimits (mPlanes0 aBuffer) \<or>
              \<not> ValidatePlane aLimits (mPlanes1 aBuffer) \<or>
              \<not> ValidatePlane aLimits (mPlanes2 aBuffer)
      then MediaResult NS_ERROR_INVALID_ARG ''Invalid plane size''
      else
        let xLimit = CheckedUint32_add (CheckedUint32 (x aPicture)) (CheckedUint32 (width aPicture));
            yLimit = CheckedUint32_add (CheckedUint32 (y aPicture)) (CheckedUint32 (height aPicture))
        in if xLimit = None \<or> the xLimit > mStride (mPlanes0 aBuffer) \<or>
              yLimit = None \<or> the yLimit > mHeight (mPlanes0 aBuffer)
           then MediaResult NS_ERROR_INVALID_ARG ''Overflowing picture rect''
           else MediaResult NS_OK [])"


subsection \<open>Time values\<close>

text \<open>
  Modelled from the spec: \<^verbatim>\<open>media::TimeUnit\<close> and \<^verbatim>\<open>media::TimeInterval\<close>
  (\<^verbatim>\<open>TimeUnits.h\<close>, \<^verbatim>\<open>Intervals.h\<close>) are not among the sources. The spec describes time
  values as exact rationals in tick-based arithmetic (a count of ticks over a base, so
  that \<open>N\<close> frames at rate \<open>R\<close> last exactly \<open>N / R\<close>) whose arithmetic is checked for
  overflow. A time value is therefore a checked 64-bit tick count over a base:
  \<^item> the tick count is \<open>None\<close> once a computation has left the range of \<^verbatim>\<open>int64_t\<close>,
    and every later result stays invalid;
  \<^item> sums and differences are exact: on a common base the ticks are added, otherwise
    both operands are brought to the product of the bases;
  \<^item> comparisons cross-multiply (bases are positive) and hold only between valid
    values;
  \<^item> \<open>ToTicksAtRate\<close> rescales to another base and truncates towards zero, as C++
    integer division does; the ticks of an invalid value read as \<open>0\<close>.
\<close>

type_synonym CheckedInt64 = "int option"

text \<open>Modelled from the spec: a tick count is kept only if it is in the range of \<^verbatim>\<open>int64_t\<close>.\<close>

definition CheckedInt64 :: "int \<Rightarrow> CheckedInt64" where
  "CheckedInt64 v = (if - (2 ^ 63) \<le> v \<and> v < 2 ^ 63 then Some v else None)"

text \<open>
  Modelled from the spec: a time value, ticks over a base; \<open>TimeUnit (Some n) r\<close> is the
  C++ \<^verbatim>\<open>TimeUnit(n, r)\<close>.
\<close>

datatype TimeUnit = TimeUnit (mTicks: CheckedInt64) (mBase: int)

text \<open>Modelled from the spec: the time zero and the invalid time.\<close>

definition TimeUnit_Zero :: TimeUnit where
  "TimeUnit_Zero = TimeUnit (Some 0) 1"

definition TimeUnit_Invalid :: TimeUnit where
  "TimeUnit_Invalid = TimeUnit None 1"

text \<open>Modelled from the spec: the tests on a time value that the code calls.\<close>

definition IsValid :: "TimeUnit \<Rightarrow> bool" where
  "IsValid t \<longleftrightarrow> mTicks t \<noteq> None"

definition IsZero :: "TimeUnit \<Rightarrow> bool" where
  "IsZero t \<longleftrightarrow> mTicks t = Some 0"

definition IsNegative :: "TimeUnit \<Rightarrow> bool" where
  "IsNegative t \<longleftrightarrow> (case mTicks t of Some v \<Rightarrow> v < 0 | None \<Rightarrow> False)"

definition IsBase :: "TimeUnit \<Rightarrow> int \<Rightarrow> bool" where
  "IsBase t aBase \<longleftrightarrow> mBase t = aBase"

text \<open>Modelled from the spec: \<^verbatim>\<open>operator+\<close>, exact and checked.\<close>

definition TimeUnit_plus :: "TimeUnit \<Rightarrow> TimeUnit \<Rightarrow> TimeUnit" where
  "TimeUnit_plus a b =
     (case (mTicks a, mTicks b) of
        (Some v, Some w) \<Rightarrow>
          (if mBase a = mBase b then TimeUnit (CheckedInt64 (v + w)) (mBase a)
           else case CheckedInt64 (mBase a * mBase b) of
                  Some c \<Rightarrow> TimeUnit (CheckedInt64 (v * mBase b + w * mBase a)) c
                | None \<Rightarrow> TimeUnit None (mBase a))
      | _ \<Rightarrow> TimeUnit None (mBase a))"

text \<open>Modelled from the spec: \<^verbatim>\<open>operator-\<close>, exact and checked.\<close>

definition TimeUnit_minus :: "TimeUnit \<Rightarrow> TimeUnit \<Rightarrow> TimeUnit" where
  "TimeUnit_minus a b =
     (case (mTicks a, mTicks b) of
        (Some v, Some w) \<Rightarrow>
          (if mBase a = mBase b then TimeUnit (CheckedInt64 (v - w)) (mBase a)
           else case CheckedInt64 (mBase a * mBase b) of
                  Some c \<Rightarrow> TimeUnit (CheckedInt64 (v * mBase b - w * mBase a)) c
                | None \<Rightarrow> TimeUnit None (mBase a))
      | _ \<Rightarrow> TimeUnit None (mBase a))"

text \<open>
  Modelled from the spec: \<^verbatim>\<open>operator<\<close>, \<^verbatim>\<open>operator>\<close> and \<^verbatim>\<open>operator==\<close>, which compare
  the rationals.
\<close>

definition TimeUnit_less :: "TimeUnit \<Rightarrow> TimeUnit \<Rightarrow> bool" where
  "TimeUnit_less a b \<longleftrightarrow>
     (case (mTicks a, mTicks b) of
        (Some v, Some w) \<Rightarrow> v * mBase b < w * mBase a
      | _ \<Rightarrow> False)"

definition TimeUnit_greater :: "TimeUnit \<Rightarrow> TimeUnit \<Rightarrow> bool" where
  "TimeUnit_greater a b \<longleftrightarrow> TimeUnit_less b a"

definition TimeUnit_equal :: "TimeUnit \<Rightarrow> TimeUnit \<Rightarrow> bool" where
  "TimeUnit_equal a b \<longleftrightarrow>
     (case (mTicks a, mTicks b) of
        (Some v, Some w) \<Rightarrow> v * mBase b = w * mBase a
      | _ \<Rightarrow> False)"

text \<open>Modelled from the spec: the ticks of a time value at another rate, truncated.\<close>

definition ToTicksAtRate :: "TimeUnit \<Rightarrow> int \<Rightarrow> int" where
  "ToTicksAtRate t aRate =
     (case mTicks t of Some v \<Rightarrow> (v * aRate) sdiv mBase t | None \<Rightarrow> 0)"

text \<open>Modelled from the spec: an interval of time, from its start to its end.\<close>

record TimeInterval =
  mStart :: TimeUnit
  mEnd :: TimeUnit

subsection \<open>MediaData\<close>

text \<open>
  Modelled from the spec: the declaration of the base class \<^verbatim>\<open>MediaData\<close>
  (\<^verbatim>\<open>MediaData.h\<close>) is not among the sources. A sample has an offset, a presentation
  timestamp, a duration, a keyframe flag and a decode timecode; its constructor takes
  the offset, the timestamp and the duration, starts the timecode at the timestamp
  and the keyframe flag at false.
\<close>

datatype Type = AUDIO_DATA | VIDEO_DATA | RAW_DATA | NULL_DATA

record MediaData =
  mType :: Type
  mOffset :: int
  mTime :: TimeUnit
  mTimecode :: TimeUnit
  mDuration :: TimeUnit
  mKeyframe :: bool

text \<open>Modelled from the spec: the end time of a sample is its timestamp plus its duration.\<close>

definition GetEndTime :: "'z MediaData_scheme \<Rightarrow> TimeUnit" where
  "GetEndTime d = TimeUnit_plus (mTime d) (mDuration d)"


subsection \<open>VideoData\<close>

record IntSize =
  size_width :: int
  size_height :: int

record VideoInfo =
  mDisplay :: IntSize
  mImage :: IntSize
  mStereoMode :: nat
  mTransferFunction :: "TransferFunction option"

text \<open>
  \<^verbatim>\<open>layers::PlanarYCbCrData\<close>, as \<^verbatim>\<open>ConstructPlanarYCbCrData\<close> fills it. The strides
  and skips go through \<^verbatim>\<open>AssertedCast<int32_t>\<close>, a plain conversion to \<^verbatim>\<open>int32_t\<close>
  in the release build.
\<close>

definition AssertedCast_int32 :: "nat \<Rightarrow> int" where
  "AssertedCast_int32 n = (int n + 2 ^ 31) mod 2 ^ 32 - 2 ^ 31"

record PlanarYCbCrData =
  mYChannel :: "nat list"
  mYStride :: int
  mYSkip :: int
  mCbChannel :: "nat list"
  mCrChannel :: "nat list"
  mCbCrStride :: int
  mCbSkip :: int
  mCrSkip :: int
  mPictureRect :: IntRect
  mStereoMode :: nat
  mYUVColorSpace :: nat
  mColorPrimaries :: nat
  mColorDepth :: ColorDepth
  mTransferFunction :: TransferFunction
  mColorRange :: nat
  mChromaSubsampling :: ChromaSubsampling

definition ConstructPlanarYCbCrData :: "VideoInfo \<Rightarrow> YCbCrBuffer \<Rightarrow> IntRect \<Rightarrow> PlanarYCbCrData" where
  "ConstructPlanarYCbCrData aInfo aBuffer aPicture =
     (let Y = mPlanes0 aBuffer; Cb = mPlanes1 aBuffer; Cr = mPlanes2 aBuffer
      in \<lparr>mYChannel = mData Y,
          mYStride = AssertedCast_int32 (mStride Y),
          mYSkip = AssertedCast_int32 (mSkip Y),
          mCbChannel = mData Cb,
          mCrChannel = mData Cr,
          mCbCrStride = AssertedCast_int32 (mStride Cb),
          mCbSkip = AssertedCast_int32 (mSkip Cb),
          mCrSkip = AssertedCast_int32 (mSkip Cr),
          mPictureRect = aPicture,
          mStereoMode = VideoInfo.mStereoMode aInfo,
          mYUVColorSpace = YCbCrBuffer.mYUVColorSpace aBuffer,
          mColorPrimaries = YCbCrBuffer.mColorPrimaries aBuffer,
          mColorDepth = YCbCrBuffer.mColorDepth aBuffer,
          mTransferFunction =
            (case VideoInfo.mTransferFunction aInfo of Some f \<Rightarrow> f | None \<Rightarrow> BT709),
          mColorRange = YCbCrBuffer.mColorRange aBuffer,
          mChromaSubsampling = YCbCrBuffer.mChromaSubsampling aBuffer\<rparr>)"

text \<open>
  Modelled from the spec: the image classes (\<^verbatim>\<open>ImageContainer.h\<close>) are not among the
  sources. An image is the planar data copied into it, or the RGBA surface converted
  from planes with alpha. A container may fail to create an image (it then returns
  null), copying plane data into a planar image yields an \<^verbatim>\<open>nsresult\<close>, and building
  the shared RGB image from alpha planes yields the image or fails.
\<close>

datatype Image =
    PlanarYCbCrImage ColorDepth "PlanarYCbCrData option"
  | SharedRGBImage "nat list"

record ImageContainer =
  CreatePlanarYCbCrImage :: bool
  CopyData :: "PlanarYCbCrData \<Rightarrow> nsresult"
  CreateSharedRGBImage :: "YCbCrBuffer \<Rightarrow> Plane \<Rightarrow> Image option"

text \<open>What a call did to images, in order: the record of its copying.\<close>

datatype ImageOp =
    OpCreatePlanarYCbCrImage
  | OpSetColorDepth ColorDepth
  | OpCopyData PlanarYCbCrData
  | OpCreateSharedRGBImage

record VideoData = MediaData +
  mDisplay :: IntSize
  mFrameID :: nat
  mSentToCompositor :: bool
  mNextKeyFrameTime :: TimeUnit
  mImage :: "Image option"

text \<open>
  The constructor. Its \<^verbatim>\<open>MOZ_ASSERT\<close> (the duration is not negative) is
  \<open>VideoData_ctor_assert\<close>.
\<close>

definition VideoData_ctor_assert :: "TimeUnit \<Rightarrow> bool" where
  "VideoData_ctor_assert aDuration \<longleftrightarrow> \<not> IsNegative aDuration"

definition VideoData_ctor ::
  "int \<Rightarrow> TimeUnit \<Rightarrow> TimeUnit \<Rightarrow> bool \<Rightarrow> TimeUnit \<Rightarrow> IntSize \<Rightarrow> nat \<Rightarrow> VideoData" where
  "VideoData_ctor aOffset aTime aDuration aKeyframe aTimecode aDisplay aFrameID =
     \<lparr>mType = VIDEO_DATA, mOffset = aOffset, mTime = aTime, mTimecode = aTimecode,
      mDuration = aDuration, mKeyframe = aKeyframe,
      mDisplay = aDisplay, mFrameID = aFrameID, mSentToCompositor = False,
      mNextKeyFrameTime = TimeUnit_Invalid, mImage = None\<rparr>"

definition UpdateDuration :: "VideoData \<Rightarrow> TimeUnit \<Rightarrow> VideoData" where
  "UpdateDuration v aDuration = v\<lparr>mDuration := aDuration\<rparr>"

definition UpdateDuration_assert :: "TimeUnit \<Rightarrow> bool" where
  "UpdateDuration_assert aDuration \<longleftrightarrow> \<not> IsNegative aDuration"

definition UpdateTimestamp :: "VideoData \<Rightarrow> TimeUnit \<Rightarrow> VideoData" where
  "UpdateTimestamp v aTimestamp =
     (let updatedDuration = TimeUnit_minus (GetEndTime v) aTimestamp
      in v\<lparr>mTime := aTimestamp, mDuration := updatedDuration\<rparr>)"

definition UpdateTimestamp_assert :: "VideoData \<Rightarrow> TimeUnit \<Rightarrow> bool" where
  "UpdateTimestamp_assert v aTimestamp \<longleftrightarrow>
     \<not> IsNegative aTimestamp \<and> \<not> IsNegative (TimeUnit_minus (GetEndTime v) aTimestamp)"

text \<open>
  \<^verbatim>\<open>VideoData::SetVideoDataToImage\<close> with \<^verbatim>\<open>aCopyData\<close> true, on the image the
  container created; \<^verbatim>\<open>RESULT_DETAIL\<close> puts the function's name before the text.
\<close>

definition SetVideoDataToImage ::
  "ImageContainer \<Rightarrow> VideoInfo \<Rightarrow> YCbCrBuffer \<Rightarrow> IntRect \<Rightarrow> ImageOp list \<times> MediaResult" where
  "SetVideoDataToImage c aInfo aBuffer aPicture =
     (let data = ConstructPlanarYCbCrData aInfo aBuffer aPicture
      in ([OpCopyData data],
          MediaResult (CopyData c data) ''SetVideoDataToImage: Failed to copy image data''))"

text \<open>
  \<^verbatim>\<open>VideoData::CreateAndCopyData\<close>, the overload that returns a \<^verbatim>\<open>Result\<close>; a null
  container is \<open>None\<close>. The block under \<^verbatim>\<open>XP_MACOSX\<close> is compiled on one platform only
  and comes after the validation; it is left out, and so are the performance
  recorder and the allocator argument that only that block reads.
\<close>

definition CreateAndCopyData ::
  "VideoLimits \<Rightarrow> VideoInfo \<Rightarrow> ImageContainer option \<Rightarrow> int \<Rightarrow> TimeUnit \<Rightarrow> TimeUnit \<Rightarrow>
   YCbCrBuffer \<Rightarrow> bool \<Rightarrow> TimeUnit \<Rightarrow> IntRect \<Rightarrow> ImageOp list \<times> (MediaResult + VideoData)" where
  "CreateAndCopyData aLimits aInfo aContainer aOffset aTime aDuration aBuffer aKeyframe aTimecode
     aPicture =
     (case aContainer of
        None \<Rightarrow>
          ([], Inr (VideoData_ctor aOffset aTime aDuration aKeyframe aTimecode
                      (VideoInfo.mDisplay aInfo) 0))
      | Some c \<Rightarrow>
          let r = ValidateBufferAndPicture aLimits aBuffer aPicture
          in if NS_FAILED (mCode r) then ([], Inl r)
             else
               let v = VideoData_ctor aOffset aTime aDuration aKeyframe aTimecode
                         (VideoInfo.mDisplay aInfo) 0
               in if \<not> CreatePlanarYCbCrImage c
                  then ([OpCreatePlanarYCbCrImage],
                        Inl (MediaResult NS_ERROR_OUT_OF_MEMORY
                               ''Failed to create a PlanarYCbCrImage''))
                  else
                    let depth = YCbCrBuffer.mColorDepth aBuffer;
                        (ops, r2) = SetVideoDataToImage c aInfo aBuffer aPicture;
                        trace = [OpCreatePlanarYCbCrImage, OpSetColorDepth depth] @ ops
                    in if NS_FAILED (mCode r2) then (trace, Inl r2)
                       else (trace,
                             Inr (v\<lparr>mImage := Some (PlanarYCbCrImage depth
                                    (Some (ConstructPlanarYCbCrData aInfo aBuffer aPicture)))\<rparr>)))"

text \<open>
  The overload with an alpha plane returns the frame or null. After the validation it
  builds a shared RGB image through the texture client; every failure on that way
  returns null, which is all the model keeps of it.
\<close>

definition CreateAndCopyData_alpha ::
  "VideoLimits \<Rightarrow> VideoInfo \<Rightarrow> ImageContainer option \<Rightarrow> int \<Rightarrow> TimeUnit \<Rightarrow> TimeUnit \<Rightarrow>
   YCbCrBuffer \<Rightarrow> Plane \<Rightarrow> bool \<Rightarrow> TimeUnit \<Rightarrow> IntRect \<Rightarrow> ImageOp list \<times> VideoData option" where
  "CreateAndCopyData_alpha aLimits aInfo aContainer aOffset aTime aDuration aBuffer aAlphaPlane
     aKeyframe aTimecode aPicture =
     (case aContainer of
        None \<Rightarrow>
          ([], Some (VideoData_ctor aOffset aTime aDuration aKeyframe aTimecode
                       (VideoInfo.mDisplay aInfo) 0))
      | Some c \<Rightarrow>
          let r = ValidateBufferAndPicture aLimits aBuffer aPicture
          in if NS_FAILED (mCode r) then ([], None)
             else
               let v = VideoData_ctor aOffset aTime aDuration aKeyframe aTimecode
                         (VideoInfo.mDisplay aInfo) 0
               in (case CreateSharedRGBImage c aBuffer aAlphaPlane of
                     None \<Rightarrow> ([OpCreateSharedRGBImage], None)
                   | Some img \<Rightarrow> ([OpCreateSharedRGBImage], Some (v\<lparr>mImage := Some img\<rparr>))))"


subsection \<open>Aligned buffers\<close>

text \<open>
  Modelled from the spec: \<^verbatim>\<open>AlignedBuffer\<close> (\<^verbatim>\<open>MediaData.h\<close>) is not among the sources.
  The spec describes a frame's buffer as exclusively owned contiguous storage that can
  be trimmed at the front, cut to a length, appended to (an allocation that may
  fail) and moved out, which leaves the source with no data and length zero. A buffer
  is \<open>None\<close> when it holds no storage (its data pointer is null, which is what
  \<^verbatim>\<open>!mAudioData\<close> tests) and otherwise the list of its elements. Whether a request for
  storage is granted is the parameter \<open>alloc\<close>, asked with the number of elements.
\<close>

type_synonym 's AlignedBuffer = "'s list option"

text \<open>Modelled from the spec: the length of a buffer and its elements.\<close>

definition Length :: "'s AlignedBuffer \<Rightarrow> nat" where
  "Length b = (case b of None \<Rightarrow> 0 | Some es \<Rightarrow> length es)"

definition Elements :: "'s AlignedBuffer \<Rightarrow> 's list" where
  "Elements b = (case b of None \<Rightarrow> [] | Some es \<Rightarrow> es)"

text \<open>
  Modelled from the spec: storage for \<open>n\<close> elements. What the buffer holds is enough for
  its own length; more has to be granted, and then the buffer has storage.
\<close>

definition EnsureCapacity :: "(nat \<Rightarrow> bool) \<Rightarrow> nat \<Rightarrow> 's AlignedBuffer \<Rightarrow> 's AlignedBuffer option" where
  "EnsureCapacity alloc n b =
     (if n \<le> Length b then Some b
      else if alloc n then Some (Some (Elements b))
      else None)"

text \<open>Modelled from the spec: appending copies the elements, or fails and changes nothing.\<close>

definition Append :: "(nat \<Rightarrow> bool) \<Rightarrow> 's list \<Rightarrow> 's AlignedBuffer \<Rightarrow> 's AlignedBuffer option" where
  "Append alloc es b =
     (case EnsureCapacity alloc (length es + Length b) b of
        None \<Rightarrow> None
      | Some b' \<Rightarrow> Some (map_option (\<lambda>old. old @ es) b'))"

text \<open>
  Modelled from the spec: trimming \<open>n\<close> elements off the front. Trimming more than the
  buffer holds moves memory that is not the buffer's.
\<close>

definition PopFront :: "nat \<Rightarrow> 's AlignedBuffer \<Rightarrow> 's AlignedBuffer outcome" where
  "PopFront n b =
     (if n > Length b then Fatal OutOfBounds
      else Done (map_option (drop n) b))"

text \<open>
  Modelled from the spec: cutting a buffer to a length; a greater length needs storage
  and fills the new elements with zero.
\<close>

definition SetLength :: "(nat \<Rightarrow> bool) \<Rightarrow> nat \<Rightarrow> ('s::zero) AlignedBuffer \<Rightarrow> bool \<times> 's AlignedBuffer" where
  "SetLength alloc n b =
     (if n > Length b
      then (case EnsureCapacity alloc n b of
              None \<Rightarrow> (False, b)
            | Some b' \<Rightarrow> (True, Some (Elements b' @ replicate (n - Length b) 0)))
      else (True, map_option (take n) b))"

subsection \<open>AudioData\<close>

text \<open>
  The audio frame. \<^verbatim>\<open>mChannels\<close>, \<^verbatim>\<open>mRate\<close>, \<^verbatim>\<open>mChannelMap\<close> and \<^verbatim>\<open>mFrames\<close> are
  \<^verbatim>\<open>uint32_t\<close>, \<^verbatim>\<open>mDataOffset\<close> is a \<^verbatim>\<open>size_t\<close>. The planar copy \<^verbatim>\<open>mAudioBuffer\<close> that
  \<^verbatim>\<open>EnsureAudioBuffer\<close> caches plays no part in the operations below and is left out.
\<close>

record 's AudioData = MediaData +
  mChannels :: nat
  mChannelMap :: nat
  mRate :: nat
  mOriginalTime :: TimeUnit
  mAudioData :: "'s AlignedBuffer"
  mTrimWindow :: "TimeInterval option"
  mFrames :: nat
  mDataOffset :: nat

text \<open>
  The constructor. The member initialiser divides the buffer length by the channel
  count before the body asserts that the count is not zero, so with no channels the
  division is the fault; the quotient is stored in 32 bits.
\<close>

definition AudioData_ctor ::
  "int \<Rightarrow> TimeUnit \<Rightarrow> 's AlignedBuffer \<Rightarrow> nat \<Rightarrow> nat \<Rightarrow> nat \<Rightarrow> 's AudioData outcome" where
  "AudioData_ctor aOffset aTime aData aChannels aRate aChannelMap =
     (if aChannels = 0 then Fatal DivisionByZero
      else if aRate = 0
      then Fatal (ReleaseAssert ''Can't create an AudioData with a sample-rate of 0.'')
      else
        let frames = (Length aData div aChannels) mod 2 ^ 32
        in Done \<lparr>mType = AUDIO_DATA, mOffset = aOffset, mTime = aTime, mTimecode = aTime,
                 mDuration = TimeUnit (Some (int frames)) (int aRate), mKeyframe = False,
                 mChannels = aChannels, mChannelMap = aChannelMap, mRate = aRate,
                 mOriginalTime = aTime, mAudioData = aData, mTrimWindow = None,
                 mFrames = frames, mDataOffset = 0\<rparr>)"

text \<open>
  \<^verbatim>\<open>GetAdjustedData\<close> is the buffer from the data offset on, or null. \<^verbatim>\<open>Data\<close> is the
  span of \<^verbatim>\<open>mFrames * mChannels\<close> elements (a 32-bit product) from there. The code
  builds the span without a check; the model gives the elements the span covers, and
  for a span that reaches past the buffer, where there are no such elements, the
  fault of reading it.
\<close>

definition GetAdjustedData :: "'s AudioData \<Rightarrow> 's list option" where
  "GetAdjustedData a =
     (case mAudioData a of None \<Rightarrow> None | Some es \<Rightarrow> Some (drop (mDataOffset a) es))"

definition Data :: "'s AudioData \<Rightarrow> 's list outcome" where
  "Data a =
     (let n = (mFrames a * mChannels a) mod 2 ^ 32
      in case GetAdjustedData a of
           None \<Rightarrow> (if n = 0 then Done [] else Fatal OutOfBounds)
         | Some es \<Rightarrow> (if n \<le> length es then Done (take n es) else Fatal OutOfBounds))"

text \<open>
  \<^verbatim>\<open>SetTrimWindow\<close> returns its boolean and the frame as it leaves it. Its first
  \<^verbatim>\<open>MOZ_DIAGNOSTIC_ASSERT\<close>, that both ends of the interval are valid, is
  \<open>SetTrimWindow_assert\<close>, which also says that the interval does not end before it
  starts, as holds of every \<^verbatim>\<open>TimeInterval\<close>. Its second, that the data offset lies in
  the buffer, checks nothing in the release build.
\<close>

definition SetTrimWindow_assert :: "TimeInterval \<Rightarrow> bool" where
  "SetTrimWindow_assert aTrim \<longleftrightarrow>
     IsValid (mStart aTrim) \<and> IsValid (mEnd aTrim) \<and>
     \<not> TimeUnit_greater (mStart aTrim) (mEnd aTrim)"

definition SetTrimWindow :: "'s AudioData \<Rightarrow> TimeInterval \<Rightarrow> (bool \<times> 's AudioData) outcome" where
  "SetTrimWindow a aTrim =
     (if mAudioData a = None then Done (False, a)
      else if TimeUnit_less (mStart aTrim) (mOriginalTime a) \<or>
              TimeUnit_greater (mEnd aTrim) (GetEndTime a)
      then Done (False, a)
      else
        let trimBefore = TimeUnit_minus (mStart aTrim) (mOriginalTime a);
            trimAfter = TimeUnit_minus (mEnd aTrim) (mOriginalTime a)
        in if \<not> IsValid trimBefore \<or> \<not> IsValid trimAfter then Done (False, a)
           else if mTrimWindow a = None \<and> IsZero trimBefore \<and>
                   TimeUnit_equal trimAfter (mDuration a)
           then Done (True, a)
           else
             let frameOffset = nat (ToTicksAtRate trimBefore (int (mRate a)) mod 2 ^ 64);
                 dataOffset = (frameOffset * mChannels a) mod 2 ^ 64;
                 frameCountAfterTrim =
                   ToTicksAtRate (TimeUnit_minus trimAfter trimBefore) (int (mRate a))
             in if mChannels a = 0 then Fatal DivisionByZero
                else if frameCountAfterTrim > int (Length (mAudioData a) div mChannels a)
                then (if IsBase trimBefore (int (mRate a))
                      then Fatal (ReleaseAssert ''!trimBefore.IsBase(mRate)'')
                      else Done (True,
                             a\<lparr>mTime := TimeUnit_plus (mOriginalTime a) trimBefore,
                               mDuration := TimeUnit (Some 0) (int (mRate a)),
                               mTrimWindow := Some aTrim, mFrames := 0,
                               mDataOffset := dataOffset\<rparr>))
                else
                  let frames = nat (frameCountAfterTrim mod 2 ^ 32)
                  in Done (True,
                       a\<lparr>mTime := TimeUnit_plus (mOriginalTime a) trimBefore,
                         mDuration := TimeUnit (Some (int frames)) (int (mRate a)),
                         mTrimWindow := Some aTrim, mFrames := frames,
                         mDataOffset := dataOffset\<rparr>))"

text \<open>
  \<^verbatim>\<open>MoveableData\<close> returns the buffer it moves out and the frame it leaves behind.
  \<^verbatim>\<open>SetLength\<close>'s boolean is not looked at.
\<close>

definition MoveableData ::
  "(nat \<Rightarrow> bool) \<Rightarrow> ('s::zero) AudioData \<Rightarrow> ('s AlignedBuffer \<times> 's AudioData) outcome" where
  "MoveableData alloc a =
     (case PopFront (mDataOffset a) (mAudioData a) of
        Fatal f \<Rightarrow> Fatal f
      | Done popped \<Rightarrow>
          let (ok, cut) = SetLength alloc ((mFrames a * mChannels a) mod 2 ^ 32) popped
          in Done (cut, a\<lparr>mAudioData := None, mDataOffset := 0, mFrames := 0,
                          mTrimWindow := None\<rparr>))"

subsection \<open>MediaRawData\<close>

text \<open>
  The encoded sample. \<^verbatim>\<open>mTrackInfo\<close> and \<^verbatim>\<open>mExtraData\<close> are \<^verbatim>\<open>RefPtr\<close>s: the model keeps
  the address of what they point to (\<open>None\<close> for null), so that two samples share a
  referent exactly when the addresses are equal. The declaration of the crypto
  metadata \<^verbatim>\<open>mCryptoInternal\<close> is not among the sources; the model is polymorphic in
  its type.
\<close>

type_synonym RefPtr = "nat option"

record 'c MediaRawData = MediaData +
  mExtraData :: RefPtr
  mCryptoInternal :: 'c
  mTrackInfo :: RefPtr
  mEOS :: bool
  mOriginalPresentationWindow :: "TimeInterval option"
  mBuffer :: "nat AlignedBuffer"
  mAlphaBuffer :: "nat AlignedBuffer"

text \<open>
  \<^verbatim>\<open>Clone\<close> makes a new sample, whose buffers are empty, assigns it every field of
  this one and appends this one's bytes to its buffers; it returns null as soon as an
  append fails. The performance recorder is left out.
\<close>

definition Clone :: "(nat \<Rightarrow> bool) \<Rightarrow> 'c MediaRawData \<Rightarrow> 'c MediaRawData option" where
  "Clone alloc m =
     (let s = \<lparr>mType = RAW_DATA, mOffset = mOffset m, mTime = mTime m,
               mTimecode = mTimecode m, mDuration = mDuration m, mKeyframe = mKeyframe m,
               mExtraData = mExtraData m, mCryptoInternal = mCryptoInternal m,
               mTrackInfo = mTrackInfo m, mEOS = mEOS m,
               mOriginalPresentationWindow = mOriginalPresentationWindow m,
               mBuffer = None, mAlphaBuffer = None\<rparr>
      in case Append alloc (Elements (mBuffer m)) (mBuffer s) of
           None \<Rightarrow> None
         | Some buf \<Rightarrow>
             (case Append alloc (Elements (mAlphaBuffer m)) (mAlphaBuffer s) of
                None \<Rightarrow> None
              | Some alpha \<Rightarrow> Some (s\<lparr>mBuffer := buf, mAlphaBuffer := alpha\<rparr>)))"


text \<open>
  Sharing. A \<^verbatim>\<open>RefPtr\<close> member holds the address of a referent that lives outside the
  sample, so two samples with the same address share it. The crypto metadata is the
  member object \<^verbatim>\<open>mCryptoInternal\<close> of the sample itself: the constructors bind the
  sample's reference \<^verbatim>\<open>mCrypto\<close> to its own member, and \<^verbatim>\<open>Clone\<close> assigns the member
  of the new sample from the member of this one. To tell a shared object from a copy
  the sample objects are given addresses: a store maps the address of each sample
  object to the sample.
\<close>

type_synonym 'c Samples = "nat \<Rightarrow> 'c MediaRawData option"

text \<open>
  \<^verbatim>\<open>Clone\<close> called on the sample object at \<open>this\<close>: \<^verbatim>\<open>new MediaRawData\<close> makes its object
  at the address \<open>fresh\<close>, which is not in use; a clone that fails releases that object
  and leaves the store as it was.
\<close>

definition Clone_at ::
  "(nat \<Rightarrow> bool) \<Rightarrow> 'c Samples \<Rightarrow> nat \<Rightarrow> nat \<Rightarrow> nat option \<times> 'c Samples" where
  "Clone_at alloc samples this fresh =
     (case samples this of
        None \<Rightarrow> (None, samples)
      | Some m \<Rightarrow>
          (case Clone alloc m of
             None \<Rightarrow> (None, samples)
           | Some s \<Rightarrow> (Some fresh, samples(fresh \<mapsto> s))))"

text \<open>
  \<^verbatim>\<open>MediaRawDataWriter\<close>'s constructor binds the writer's reference \<^verbatim>\<open>mCrypto\<close> to the
  \<^verbatim>\<open>mCryptoInternal\<close> of its target, so an assignment to the writer's \<^verbatim>\<open>mCrypto\<close> assigns
  that member of the target sample object, and of no other.
\<close>

definition Writer_assign_mCrypto :: "'c Samples \<Rightarrow> nat \<Rightarrow> 'c \<Rightarrow> 'c Samples" where
  "Writer_assign_mCrypto samples target c =
     (case samples target of
        None \<Rightarrow> samples
      | Some m \<Rightarrow> samples(target \<mapsto> m\<lparr>mCryptoInternal := c\<rparr>))"

subsection \<open>The original range of an audio frame\<close>

text \<open>
  The rational number a valid time value stands for.
\<close>

definition ToRational :: "TimeUnit \<Rightarrow> rat" where
  "ToRational t = (case mTicks t of Some v \<Rightarrow> of_int v / of_int (mBase t) | None \<Rightarrow> 0)"

text \<open>
  A frame does not store its original duration. It is the duration the constructor
  computed from the buffer, which trimming never changes in length: the frames of the
  whole buffer at the sample rate. The original range ends at the original time plus
  that duration.
\<close>

definition OriginalDuration :: "'s AudioData \<Rightarrow> TimeUnit" where
  "OriginalDuration a =
     TimeUnit (Some (int ((Length (mAudioData a) div mChannels a) mod 2 ^ 32))) (int (mRate a))"

definition OriginalEndTime :: "'s AudioData \<Rightarrow> TimeUnit" where
  "OriginalEndTime a = TimeUnit_plus (mOriginalTime a) (OriginalDuration a)"

text \<open>
  The invariant of the spec's data model, that a frame's range lies in its original
  range, as far as the end is concerned: while a frame holds its buffer, its end time
  is a valid time and not after the original end. The bases of its times are positive,
  as the bases of all time values are.
\<close>

definition AudioData_invariant :: "'s AudioData \<Rightarrow> bool" where
  "AudioData_invariant a \<longleftrightarrow>
     (mAudioData a \<noteq> None \<longrightarrow>
        0 < mBase (mTime a) \<and> 0 < mBase (mDuration a) \<and> 0 < mBase (mOriginalTime a) \<and>
        0 < mRate a \<and> 0 < mChannels a \<and>
        IsValid (GetEndTime a) \<and> IsValid (OriginalEndTime a) \<and>
        ToRational (GetEndTime a) \<le> ToRational (OriginalEndTime a))"

subsection \<open>Example values\<close>

definition exampleLimits :: VideoLimits where
  "exampleLimits = \<lparr>MAX_DIMENSION = 16384, MAX_VIDEO_WIDTH = 8192, MAX_VIDEO_HEIGHT = 4608\<rparr>"

definition examplePlane :: "nat \<Rightarrow> nat \<Rightarrow> Plane" where
  "examplePlane w h = \<lparr>mData = replicate (w * h) 0, mWidth = w, mHeight = h, mStride = w, mSkip = 0\<rparr>"

definition exampleBuffer :: YCbCrBuffer where
  "exampleBuffer =
     \<lparr>mPlanes0 = examplePlane 16 16, mPlanes1 = examplePlane 8 8, mPlanes2 = examplePlane 8 8,
      YCbCrBuffer.mYUVColorSpace = 0, YCbCrBuffer.mColorPrimaries = 0,
      YCbCrBuffer.mColorDepth = COLOR_8, YCbCrBuffer.mColorRange = 0,
      YCbCrBuffer.mChromaSubsampling = HALF_WIDTH_AND_HEIGHT\<rparr>"

definition exampleInfo :: VideoInfo where
  "exampleInfo =
     \<lparr>VideoInfo.mDisplay = \<lparr>size_width = 16, size_height = 16\<rparr>,
      VideoInfo.mImage = \<lparr>size_width = 16, size_height = 16\<rparr>,
      VideoInfo.mStereoMode = 0, VideoInfo.mTransferFunction = None\<rparr>"

definition exampleContainer :: ImageContainer where
  "exampleContainer =
     \<lparr>CreatePlanarYCbCrImage = True, CopyData = (\<lambda>d. NS_OK),
      CreateSharedRGBImage = (\<lambda>b p. None)\<rparr>"

text \<open>
  The frame of the spec's scenario: two channels at 48000 Hz over 9600 interleaved
  samples, starting at time zero counted in microseconds.
\<close>

definition exampleAudio :: "int AudioData" where
  "exampleAudio =
     \<lparr>mType = AUDIO_DATA, mOffset = 0, mTime = TimeUnit (Some 0) 1000000,
      mTimecode = TimeUnit (Some 0) 1000000, mDuration = TimeUnit (Some 4800) 48000,
      mKeyframe = False, mChannels = 2, mChannelMap = 3, mRate = 48000,
      mOriginalTime = TimeUnit (Some 0) 1000000, mAudioData = Some (replicate 9600 0),
      mTrimWindow = None, mFrames = 4800, mDataOffset = 0\<rparr>"

definition exampleTrim :: TimeInterval where
  "exampleTrim = \<lparr>mStart = TimeUnit (Some 20000) 1000000, mEnd = TimeUnit (Some 60000) 1000000\<rparr>"

definition exampleTrimmedAudio :: "int AudioData" where
  "exampleTrimmedAudio =
     exampleAudio\<lparr>mTime := TimeUnit (Some 20000) 1000000,
                  mDuration := TimeUnit (Some 1920) 48000,
                  mTrimWindow := Some exampleTrim, mFrames := 1920, mDataOffset := 1920\<rparr>"









text \<open>
  An encoded sample of three bytes with one alpha byte, whose track info is the object
  at address 1 and whose crypto metadata is the value 5.
\<close>

definition exampleRaw :: "nat MediaRawData" where
  "exampleRaw =
     \<lparr>mType = RAW_DATA, mOffset = 7, mTime = TimeUnit (Some 40) 1000,
      mTimecode = TimeUnit (Some 30) 1000, mDuration = TimeUnit (Some 10) 1000,
      mKeyframe = True, mExtraData = None, mCryptoInternal = 5, mTrackInfo = Some 1,
      mEOS = False, mOriginalPresentationWindow = None,
      mBuffer = Some [1, 2, 3], mAlphaBuffer = Some [4]\<rparr>"

section \<open>Properties\<close>

subsection \<open>Plane validation\<close>

text \<open>
  C6, as the code has it. The claim reads: a plane is accepted if and only if its stride
  is at least its width and width times height is below the pixel budget. The code
  asks for more: \<open>ValidatePlane\<close> also rejects a width or a height above
  \<open>MAX_DIMENSION\<close> and a stride of zero. With a \<open>MAX_DIMENSION\<close> below \<open>2 ^ 16\<close> (so
  that the 32-bit product of an accepted width and height cannot wrap), a plane is
  accepted if and only if width and height are at most \<open>MAX_DIMENSION\<close>, the stride is
  positive and at least the width, and width times height is below
  \<open>MAX_VIDEO_WIDTH * MAX_VIDEO_HEIGHT\<close>.
\<close>

theorem ValidatePlane_iff:
  assumes "MAX_DIMENSION aLimits < 2 ^ 16"
  shows "ValidatePlane aLimits aPlane \<longleftrightarrow>
           mWidth aPlane \<le> MAX_DIMENSION aLimits \<and> mHeight aPlane \<le> MAX_DIMENSION aLimits \<and>
           0 < mStride aPlane \<and> mWidth aPlane \<le> mStride aPlane \<and>
           mWidth aPlane * mHeight aPlane < MAX_VIDEO_WIDTH aLimits * MAX_VIDEO_HEIGHT aLimits"
proof (cases "mWidth aPlane \<le> MAX_DIMENSION aLimits \<and> mHeight aPlane \<le> MAX_DIMENSION aLimits")
  case True
  then have "mWidth aPlane * mHeight aPlane \<le> MAX_DIMENSION aLimits * MAX_DIMENSION aLimits"
    by (simp add: mult_le_mono)
  also have "\<dots> < 2 ^ 16 * 2 ^ 16"
    by (rule mult_strict_mono) (use assms in auto)
  finally have "mWidth aPlane * mHeight aPlane < 2 ^ 32" by simp
  then have "(mWidth aPlane * mHeight aPlane) mod 2 ^ 32 = mWidth aPlane * mHeight aPlane"
    by simp
  then show ?thesis
    unfolding ValidatePlane_def by auto
next
  case False
  then show ?thesis
    unfolding ValidatePlane_def by auto
qed

text \<open>Witness for C6: a 1920 by 1080 plane under limits that satisfy the hypothesis.\<close>

theorem ValidatePlane_iff_witness:
  "MAX_DIMENSION exampleLimits < 2 ^ 16 \<and>
   ValidatePlane exampleLimits
     \<lparr>mData = [], mWidth = 1920, mHeight = 1080, mStride = 1920, mSkip = 0\<rparr>"
  using ValidatePlane_iff
    [of exampleLimits "\<lparr>mData = [], mWidth = 1920, mHeight = 1080, mStride = 1920, mSkip = 0\<rparr>"]
  by (simp add: exampleLimits_def)

text \<open>
  Counterexample to C6 as stated: the plane of width, height and stride zero has a
  stride that is at least its width and an area below the budget, and is rejected,
  because its stride is not positive.
\<close>

theorem ValidatePlane_counterexample:
  "\<not> (ValidatePlane exampleLimits
         \<lparr>mData = [], mWidth = 0, mHeight = 0, mStride = 0, mSkip = 0\<rparr>
       \<longleftrightarrow> (0::nat) \<le> 0 \<and>
           (0::nat) * 0 < MAX_VIDEO_WIDTH exampleLimits * MAX_VIDEO_HEIGHT exampleLimits)"
  by (simp add: ValidatePlane_def exampleLimits_def)

subsection \<open>Creating a video frame\<close>

lemma ValidateBufferAndPicture_message:
  "mCode (ValidateBufferAndPicture aLimits aBuffer aPicture) = NS_ERROR_INVALID_ARG \<Longrightarrow>
   mMessage (ValidateBufferAndPicture aLimits aBuffer aPicture) \<in>
     {''Chroma planes with different sizes'', ''Empty picture rect'',
      ''Invalid plane size'', ''Overflowing picture rect''}"
  by (simp add: ValidateBufferAndPicture_def MediaResult_def Let_def split: if_splits)

lemma CheckedUint32_add_value:
  "CheckedUint32_add (CheckedUint32 a) (CheckedUint32 b) = Some n \<Longrightarrow> int n = a + b"
  by (auto simp: CheckedUint32_add_def CheckedUint32_def split: if_splits)

lemma ValidateBufferAndPicture_overflowing:
  assumes "CheckedUint32_add (CheckedUint32 (x aPicture)) (CheckedUint32 (width aPicture)) = None \<or>
           int (mStride (mPlanes0 aBuffer)) < x aPicture + width aPicture \<or>
           CheckedUint32_add (CheckedUint32 (y aPicture)) (CheckedUint32 (height aPicture)) = None \<or>
           int (mHeight (mPlanes0 aBuffer)) < y aPicture + height aPicture"
  shows "mCode (ValidateBufferAndPicture aLimits aBuffer aPicture) = NS_ERROR_INVALID_ARG"
proof -
  let ?xl = "CheckedUint32_add (CheckedUint32 (x aPicture)) (CheckedUint32 (width aPicture))"
  let ?yl = "CheckedUint32_add (CheckedUint32 (y aPicture)) (CheckedUint32 (height aPicture))"
  have "?xl = None \<or> the ?xl > mStride (mPlanes0 aBuffer) \<or>
        ?yl = None \<or> the ?yl > mHeight (mPlanes0 aBuffer)"
    using assms CheckedUint32_add_value [of "x aPicture" "width aPicture"]
      CheckedUint32_add_value [of "y aPicture" "height aPicture"]
    by (cases ?xl; cases ?yl) auto
  then show ?thesis
    by (simp add: ValidateBufferAndPicture_def MediaResult_def Let_def)
qed

text \<open>
  C1, as the code has it. The claim reads: whenever the picture rectangle exceeds the
  plane bounds, \<open>CreateAndCopyData\<close> fails with an invalid-argument error and copies
  nothing. The code validates only when it is given an image container. Given one,
  a picture rectangle whose \<open>x + width\<close> overflows the checked 32-bit sum or exceeds
  the stride of the Y plane, or whose \<open>y + height\<close> overflows or exceeds the height of
  the Y plane, makes \<open>CreateAndCopyData\<close> return an error with the code
  \<open>NS_ERROR_INVALID_ARG\<close> and one of the four reason strings, having done nothing to
  any image: no frame is returned and no plane data is copied.
\<close>

theorem CreateAndCopyData_overflowing_picture:
  assumes "CheckedUint32_add (CheckedUint32 (x aPicture)) (CheckedUint32 (width aPicture)) = None \<or>
           int (mStride (mPlanes0 aBuffer)) < x aPicture + width aPicture \<or>
           CheckedUint32_add (CheckedUint32 (y aPicture)) (CheckedUint32 (height aPicture)) = None \<or>
           int (mHeight (mPlanes0 aBuffer)) < y aPicture + height aPicture"
  shows "\<exists>r. CreateAndCopyData aLimits aInfo (Some c) aOffset aTime aDuration aBuffer aKeyframe
                aTimecode aPicture = ([], Inl r) \<and>
             mCode r = NS_ERROR_INVALID_ARG \<and>
             mMessage r \<in> {''Chroma planes with different sizes'', ''Empty picture rect'',
                            ''Invalid plane size'', ''Overflowing picture rect''}"
proof -
  let ?r = "ValidateBufferAndPicture aLimits aBuffer aPicture"
  have code: "mCode ?r = NS_ERROR_INVALID_ARG"
    using assms by (rule ValidateBufferAndPicture_overflowing)
  then have "CreateAndCopyData aLimits aInfo (Some c) aOffset aTime aDuration aBuffer aKeyframe
               aTimecode aPicture = ([], Inl ?r)"
    by (simp add: CreateAndCopyData_def NS_FAILED_def Let_def)
  with code ValidateBufferAndPicture_message [OF code] show ?thesis
    by blast
qed

text \<open>
  Witness for C1: a picture of 100 by 100 at the origin on a Y plane of 16 by 16, with a
  container; the call fails with the reason for an overflowing picture.
\<close>

theorem CreateAndCopyData_overflowing_picture_witness:
  "int (mStride (mPlanes0 exampleBuffer)) < 0 + 100 \<and>
   (\<exists>r. CreateAndCopyData exampleLimits exampleInfo (Some exampleContainer) 0 TimeUnit_Zero
           TimeUnit_Zero exampleBuffer False TimeUnit_Zero
           \<lparr>x = 0, y = 0, width = 100, height = 100\<rparr> = ([], Inl r) \<and>
        mCode r = NS_ERROR_INVALID_ARG \<and>
        mMessage r \<in> {''Chroma planes with different sizes'', ''Empty picture rect'',
                       ''Invalid plane size'', ''Overflowing picture rect''})"
  using CreateAndCopyData_overflowing_picture
    [of "\<lparr>x = 0, y = 0, width = 100, height = 100\<rparr>" exampleBuffer exampleLimits exampleInfo
        exampleContainer 0 TimeUnit_Zero TimeUnit_Zero False TimeUnit_Zero]
  by (simp add: exampleBuffer_def examplePlane_def)

text \<open>
  Counterexample to C1 as stated: the same picture, which exceeds the 16 by 16 Y plane,
  with no container. The call succeeds and returns a frame.
\<close>

theorem CreateAndCopyData_overflowing_picture_counterexample:
  "int (mStride (mPlanes0 exampleBuffer)) < 0 + 100 \<and>
   snd (CreateAndCopyData exampleLimits exampleInfo None 0 TimeUnit_Zero TimeUnit_Zero
          exampleBuffer False TimeUnit_Zero \<lparr>x = 0, y = 0, width = 100, height = 100\<rparr>) =
     Inr (VideoData_ctor 0 TimeUnit_Zero TimeUnit_Zero False TimeUnit_Zero
            (VideoInfo.mDisplay exampleInfo) 0)"
  by (simp add: CreateAndCopyData_def exampleBuffer_def examplePlane_def)

text \<open>
  C10. With no image container, both overloads of \<open>CreateAndCopyData\<close> return, for every
  buffer and picture rectangle and without looking at them, the frame the constructor
  makes from the arguments: it has no image, and its offset, time, duration, keyframe
  flag and timecode are the arguments. Nothing is done to any image.
\<close>

theorem CreateAndCopyData_no_container:
  "CreateAndCopyData aLimits aInfo None aOffset aTime aDuration aBuffer aKeyframe aTimecode
     aPicture =
     ([], Inr (VideoData_ctor aOffset aTime aDuration aKeyframe aTimecode
                 (VideoInfo.mDisplay aInfo) 0)) \<and>
   CreateAndCopyData_alpha aLimits aInfo None aOffset aTime aDuration aBuffer aAlphaPlane
     aKeyframe aTimecode aPicture =
     ([], Some (VideoData_ctor aOffset aTime aDuration aKeyframe aTimecode
                  (VideoInfo.mDisplay aInfo) 0)) \<and>
   mImage (VideoData_ctor aOffset aTime aDuration aKeyframe aTimecode
             (VideoInfo.mDisplay aInfo) 0) = None \<and>
   mOffset (VideoData_ctor aOffset aTime aDuration aKeyframe aTimecode
              (VideoInfo.mDisplay aInfo) 0) = aOffset \<and>
   mTime (VideoData_ctor aOffset aTime aDuration aKeyframe aTimecode
            (VideoInfo.mDisplay aInfo) 0) = aTime \<and>
   mDuration (VideoData_ctor aOffset aTime aDuration aKeyframe aTimecode
                (VideoInfo.mDisplay aInfo) 0) = aDuration \<and>
   mKeyframe (VideoData_ctor aOffset aTime aDuration aKeyframe aTimecode
                (VideoInfo.mDisplay aInfo) 0) = aKeyframe \<and>
   mTimecode (VideoData_ctor aOffset aTime aDuration aKeyframe aTimecode
                (VideoInfo.mDisplay aInfo) 0) = aTimecode"
  by (simp add: CreateAndCopyData_def CreateAndCopyData_alpha_def VideoData_ctor_def)


subsection \<open>Constructing an audio frame\<close>

text \<open>
  C7, as the code has it. The claim reads: constructing an \<open>AudioData\<close> with no channels
  or a rate of zero returns an invalid-argument error to the caller. The constructor
  returns no error value: with no channels or with a rate of zero it ends in a fatal
  fault (the division by the channel count, or the release assertion on the rate)
  and no frame is constructed.
\<close>

theorem AudioData_ctor_fatal:
  assumes "aChannels = 0 \<or> aRate = 0"
  shows "\<exists>f. AudioData_ctor aOffset aTime aData aChannels aRate aChannelMap = Fatal f"
  using assms by (auto simp: AudioData_ctor_def)

text \<open>Witness for C7: two samples, no channels.\<close>

theorem AudioData_ctor_fatal_witness:
  "((0::nat) = 0 \<or> (48000::nat) = 0) \<and>
   (\<exists>f. AudioData_ctor 0 TimeUnit_Zero (Some [0, 0 :: int]) 0 48000 3 = Fatal f)"
  using AudioData_ctor_fatal [of 0 48000 0 TimeUnit_Zero "Some [0, 0 :: int]" 3]
  by simp

text \<open>
  Counterexample to C7 as stated: two channels at a rate of zero end in the release
  assertion, and no channels at 48000 Hz in the division; neither returns.
\<close>

theorem AudioData_ctor_fatal_counterexample:
  "AudioData_ctor 0 TimeUnit_Zero (Some [0, 0 :: int]) 2 0 3 =
     Fatal (ReleaseAssert ''Can't create an AudioData with a sample-rate of 0.'') \<and>
   AudioData_ctor 0 TimeUnit_Zero (Some [0, 0 :: int]) 0 48000 3 = Fatal DivisionByZero"
  by (simp add: AudioData_ctor_def)

lemma exampleAudio_ctor:
  "AudioData_ctor 0 (TimeUnit (Some 0) 1000000) (Some (replicate 9600 (0::int))) 2 48000 3 =
     Done exampleAudio"
  by (simp add: AudioData_ctor_def exampleAudio_def Length_def)

lemma exampleAudio_trim:
  "SetTrimWindow exampleAudio exampleTrim = Done (True, exampleTrimmedAudio)"
  by (simp add: SetTrimWindow_def exampleAudio_def exampleTrim_def exampleTrimmedAudio_def
      TimeUnit_less_def TimeUnit_greater_def GetEndTime_def TimeUnit_plus_def TimeUnit_minus_def
      CheckedInt64_def IsValid_def IsZero_def TimeUnit_equal_def ToTicksAtRate_def Length_def
      IsBase_def signed_divide_int_def Let_def)

text \<open>
  C3. A buffer of length \<open>L\<close> with \<open>C > 0\<close> channels at a rate \<open>R > 0\<close>, whose frame count
  \<open>L div C\<close> fits the 32-bit frame counter, is constructed into a frame that reports
  \<open>L div C\<close> frames and whose duration is that many ticks over the base \<open>R\<close>, the
  rational \<open>(L div C) / R\<close>. In particular 9600 interleaved samples in two channels at
  48000 Hz make a frame of 4800 frames that lasts 100 ms, and trimming it to
  20 ms .. 60 ms leaves 1920 frames at a data offset of 1920 samples.
\<close>

theorem AudioData_ctor_frames:
  "(0 < aChannels \<longrightarrow> 0 < aRate \<longrightarrow> Length aData div aChannels < 2 ^ 32 \<longrightarrow>
      (\<exists>a. AudioData_ctor aOffset aTime aData aChannels aRate aChannelMap = Done a \<and>
           mFrames a = Length aData div aChannels \<and>
           mDuration a = TimeUnit (Some (int (mFrames a))) (int aRate) \<and>
           ToRational (mDuration a) = of_nat (mFrames a) / of_nat aRate)) \<and>
   AudioData_ctor 0 (TimeUnit (Some 0) 1000000) (Some (replicate 9600 (0::int))) 2 48000 3 =
     Done exampleAudio \<and>
   mFrames exampleAudio = 4800 \<and>
   TimeUnit_equal (mDuration exampleAudio) (TimeUnit (Some 100) 1000) \<and>
   SetTrimWindow exampleAudio exampleTrim = Done (True, exampleTrimmedAudio) \<and>
   mFrames exampleTrimmedAudio = 1920 \<and>
   mDataOffset exampleTrimmedAudio = 1920"
proof -
  have general: "0 < aChannels \<longrightarrow> 0 < aRate \<longrightarrow> Length aData div aChannels < 2 ^ 32 \<longrightarrow>
      (\<exists>a. AudioData_ctor aOffset aTime aData aChannels aRate aChannelMap = Done a \<and>
           mFrames a = Length aData div aChannels \<and>
           mDuration a = TimeUnit (Some (int (mFrames a))) (int aRate) \<and>
           ToRational (mDuration a) = of_nat (mFrames a) / of_nat aRate)"
    by (simp add: AudioData_ctor_def ToRational_def Let_def)
  have duration: "TimeUnit_equal (mDuration exampleAudio) (TimeUnit (Some 100) 1000)"
    by (simp add: exampleAudio_def TimeUnit_equal_def)
  have frames: "mFrames exampleAudio = 4800" "mFrames exampleTrimmedAudio = 1920"
    "mDataOffset exampleTrimmedAudio = 1920"
    by (simp_all add: exampleAudio_def exampleTrimmedAudio_def)
  from general exampleAudio_ctor duration exampleAudio_trim frames show ?thesis
    by blast
qed

text \<open>Witness for C3: the hypotheses hold for the buffer of the scenario.\<close>

theorem AudioData_ctor_frames_witness:
  "(0::nat) < 2 \<and> (0::nat) < 48000 \<and>
   Length (Some (replicate 9600 (0::int))) div 2 < 2 ^ 32 \<and>
   (\<exists>a. AudioData_ctor 0 (TimeUnit (Some 0) 1000000) (Some (replicate 9600 (0::int))) 2 48000 3 =
           Done a \<and>
        mFrames a = 4800 \<and> mDuration a = TimeUnit (Some 4800) 48000)"
proof -
  have len: "Length (Some (replicate 9600 (0::int))) = 9600"
    by (simp add: Length_def)
  from AudioData_ctor_frames
    [of 2 48000 "Some (replicate 9600 (0::int))" 0 "TimeUnit (Some 0) 1000000" 3]
  obtain a where
    "AudioData_ctor 0 (TimeUnit (Some 0) 1000000) (Some (replicate 9600 (0::int))) 2 48000 3 =
       Done a"
    "mFrames a = 4800" "mDuration a = TimeUnit (Some (int (mFrames a))) 48000"
    by (auto simp: len)
  then show ?thesis
    by (auto simp: len)
qed


subsection \<open>Moving the samples out\<close>

text \<open>
  C5. \<open>MoveableData\<close>, called on a frame whose data offset lies in its buffer, returns;
  the frame it leaves has data offset 0, frame count 0 and no trim window; on that
  frame \<open>Data\<close> is the empty span and a second \<open>MoveableData\<close> returns a buffer of
  length zero: neither faults or reads out of bounds.
\<close>

theorem MoveableData_then_empty:
  assumes "mDataOffset a \<le> Length (mAudioData a)"
  shows "\<exists>buf a'. MoveableData alloc a = Done (buf, a') \<and>
           mDataOffset a' = 0 \<and> mFrames a' = 0 \<and> mTrimWindow a' = None \<and>
           Data a' = Done [] \<and>
           (\<exists>buf2 a2. MoveableData alloc2 a' = Done (buf2, a2) \<and>
                       Length buf2 = 0 \<and> Elements buf2 = [])"
proof -
  let ?a' = "a\<lparr>mAudioData := None, mDataOffset := 0, mFrames := 0, mTrimWindow := None\<rparr>"
  obtain popped where popped: "PopFront (mDataOffset a) (mAudioData a) = Done popped"
    using assms by (simp add: PopFront_def)
  obtain ok cut where
    "SetLength alloc ((mFrames a * mChannels a) mod 2 ^ 32) popped = (ok, cut)"
    by (cases "SetLength alloc ((mFrames a * mChannels a) mod 2 ^ 32) popped")
  with popped have first: "MoveableData alloc a = Done (cut, ?a')"
    by (simp add: MoveableData_def)
  have data: "Data ?a' = Done []"
    by (simp add: Data_def GetAdjustedData_def)
  have second: "MoveableData alloc2 ?a' = Done (None, ?a')"
    by (simp add: MoveableData_def PopFront_def SetLength_def Length_def)
  have "Length (None :: 'a AlignedBuffer) = 0" "Elements (None :: 'a AlignedBuffer) = []"
    by (simp_all add: Length_def Elements_def)
  with first data second show ?thesis
    by auto
qed

text \<open>Witness for C5: the trimmed frame of the scenario, 1920 samples into 9600.\<close>

theorem MoveableData_then_empty_witness:
  "mDataOffset exampleTrimmedAudio \<le> Length (mAudioData exampleTrimmedAudio) \<and>
   (\<exists>buf a'. MoveableData (\<lambda>n. True) exampleTrimmedAudio = Done (buf, a') \<and>
      mDataOffset a' = 0 \<and> mFrames a' = 0 \<and> mTrimWindow a' = None \<and>
      Data a' = Done [] \<and>
      (\<exists>buf2 a2. MoveableData (\<lambda>n. True) a' = Done (buf2, a2) \<and>
                  Length buf2 = 0 \<and> Elements buf2 = []))"
proof -
  have h: "mDataOffset exampleTrimmedAudio \<le> Length (mAudioData exampleTrimmedAudio)"
    by (simp add: exampleTrimmedAudio_def exampleAudio_def Length_def)
  from h MoveableData_then_empty [OF h, of "\<lambda>n. True" "\<lambda>n. True"] show ?thesis
    by blast
qed


subsection \<open>Cloning an encoded sample\<close>

lemma Append_to_null:
  "Append alloc es None =
     (if es = [] then Some None else if alloc (length es) then Some (Some es) else None)"
  by (simp add: Append_def EnsureCapacity_def Length_def Elements_def)

lemma Clone_fields:
  assumes "Clone alloc m = Some s"
  shows "mTime s = mTime m" "mDuration s = mDuration m" "mOffset s = mOffset m"
    "mKeyframe s = mKeyframe m" "mTimecode s = mTimecode m"
    "Elements (mBuffer s) = Elements (mBuffer m)"
    "Elements (mAlphaBuffer s) = Elements (mAlphaBuffer m)"
    "mTrackInfo s = mTrackInfo m" "mExtraData s = mExtraData m"
    "mCryptoInternal s = mCryptoInternal m" "mEOS s = mEOS m"
    "mOriginalPresentationWindow s = mOriginalPresentationWindow m"
  using assms
  by (cases "mBuffer m"; cases "mAlphaBuffer m";
      auto simp: Clone_def Append_to_null Elements_def split: option.splits if_splits)+

lemma Clone_null:
  assumes "Clone alloc m = None"
  shows "\<not> alloc (Length (mBuffer m)) \<or> \<not> alloc (Length (mAlphaBuffer m))"
  using assms
  by (cases "mBuffer m"; cases "mAlphaBuffer m")
     (auto simp: Clone_def Append_to_null Length_def Elements_def split: option.splits if_splits)

text \<open>
  C9, as the code has it. The claim reads: the clone shares track info and crypto
  metadata with the original by reference. It shares the track info; the crypto
  metadata it copies. \<open>Clone\<close> returns either null or a sample whose timestamp,
  duration, offset, keyframe flag, timecode, bytes and alpha bytes are those of the
  original, whose track info and extra data are the referents of the original (the
  same addresses), and whose crypto metadata is a copy in the clone's own member: it
  has the value the original's has at the call, and an assignment to the original's
  crypto metadata afterwards changes the original's and leaves the clone's. \<open>Clone\<close>
  returns null only when the allocation for one of the two buffers is refused, and
  then makes no sample at all, so there is no partly copied sample.
\<close>

theorem Clone_full_or_null:
  "(case Clone alloc m of
      None \<Rightarrow> \<not> alloc (Length (mBuffer m)) \<or> \<not> alloc (Length (mAlphaBuffer m))
    | Some s \<Rightarrow>
        mTime s = mTime m \<and> mDuration s = mDuration m \<and> mOffset s = mOffset m \<and>
        mKeyframe s = mKeyframe m \<and> mTimecode s = mTimecode m \<and>
        Elements (mBuffer s) = Elements (mBuffer m) \<and>
        Elements (mAlphaBuffer s) = Elements (mAlphaBuffer m) \<and>
        mTrackInfo s = mTrackInfo m \<and> mExtraData s = mExtraData m \<and>
        mCryptoInternal s = mCryptoInternal m \<and> mEOS s = mEOS m \<and>
        mOriginalPresentationWindow s = mOriginalPresentationWindow m) \<and>
   (samples this = Some m \<longrightarrow> fresh \<noteq> this \<longrightarrow>
      (case Clone_at alloc samples this fresh of
         (None, samples') \<Rightarrow> Clone alloc m = None \<and> samples' = samples
       | (Some p, samples') \<Rightarrow>
           p = fresh \<and> samples' fresh = Clone alloc m \<and> samples' this = Some m \<and>
           (\<forall>c. map_option mCryptoInternal (Writer_assign_mCrypto samples' this c this) = Some c \<and>
                map_option mCryptoInternal (Writer_assign_mCrypto samples' this c fresh) =
                  Some (mCryptoInternal m) \<and>
                map_option mTrackInfo (Writer_assign_mCrypto samples' this c fresh) =
                  map_option mTrackInfo (Writer_assign_mCrypto samples' this c this))))"
proof (intro conjI impI)
  show "case Clone alloc m of
      None \<Rightarrow> \<not> alloc (Length (mBuffer m)) \<or> \<not> alloc (Length (mAlphaBuffer m))
    | Some s \<Rightarrow>
        mTime s = mTime m \<and> mDuration s = mDuration m \<and> mOffset s = mOffset m \<and>
        mKeyframe s = mKeyframe m \<and> mTimecode s = mTimecode m \<and>
        Elements (mBuffer s) = Elements (mBuffer m) \<and>
        Elements (mAlphaBuffer s) = Elements (mAlphaBuffer m) \<and>
        mTrackInfo s = mTrackInfo m \<and> mExtraData s = mExtraData m \<and>
        mCryptoInternal s = mCryptoInternal m \<and> mEOS s = mEOS m \<and>
        mOriginalPresentationWindow s = mOriginalPresentationWindow m"
  proof (cases "Clone alloc m")
    case None
    with Clone_null [OF None] show ?thesis
      by simp
  next
    case (Some s)
    with Clone_fields [OF Some] show ?thesis
      by simp
  qed
next
  assume here: "samples this = Some m" and fresh: "fresh \<noteq> this"
  show "case Clone_at alloc samples this fresh of
         (None, samples') \<Rightarrow> Clone alloc m = None \<and> samples' = samples
       | (Some p, samples') \<Rightarrow>
           p = fresh \<and> samples' fresh = Clone alloc m \<and> samples' this = Some m \<and>
           (\<forall>c. map_option mCryptoInternal (Writer_assign_mCrypto samples' this c this) = Some c \<and>
                map_option mCryptoInternal (Writer_assign_mCrypto samples' this c fresh) =
                  Some (mCryptoInternal m) \<and>
                map_option mTrackInfo (Writer_assign_mCrypto samples' this c fresh) =
                  map_option mTrackInfo (Writer_assign_mCrypto samples' this c this))"
  proof (cases "Clone alloc m")
    case None
    with here show ?thesis
      by (simp add: Clone_at_def)
  next
    case (Some s)
    with here have at: "Clone_at alloc samples this fresh = (Some fresh, samples(fresh \<mapsto> s))"
      by (simp add: Clone_at_def)
    have "mCryptoInternal s = mCryptoInternal m" "mTrackInfo s = mTrackInfo m"
      using Clone_fields(10,8) [OF Some] by blast+
    with here fresh Some show ?thesis
      unfolding at by (simp add: Writer_assign_mCrypto_def)
  qed
qed

text \<open>
  Witness for C9: the sample of three bytes with one alpha byte, at address 1, is cloned
  in full to address 2 when storage is granted, and not at all when it is refused.
\<close>

theorem Clone_full_or_null_witness:
  "(\<exists>s. Clone (\<lambda>n. True) exampleRaw = Some s \<and>
        mTime s = TimeUnit (Some 40) 1000 \<and> Elements (mBuffer s) = [1, 2, 3] \<and>
        Elements (mAlphaBuffer s) = [4] \<and> mTrackInfo s = Some 1 \<and> mCryptoInternal s = 5) \<and>
   Clone (\<lambda>n. False) exampleRaw = None \<and>
   [1 \<mapsto> exampleRaw] 1 = Some exampleRaw \<and> (2::nat) \<noteq> 1 \<and>
   fst (Clone_at (\<lambda>n. True) [1 \<mapsto> exampleRaw] 1 2) = Some 2"
proof -
  have none: "Clone (\<lambda>n. False) exampleRaw = None"
    by (simp add: Clone_def Append_to_null Elements_def exampleRaw_def)
  have fields: "mTime exampleRaw = TimeUnit (Some 40) 1000"
    "Elements (mBuffer exampleRaw) = [1, 2, 3]" "Elements (mAlphaBuffer exampleRaw) = [4]"
    "mTrackInfo exampleRaw = Some 1" "mCryptoInternal exampleRaw = 5"
    by (simp_all add: exampleRaw_def Elements_def)
  note inst = Clone_full_or_null [of "\<lambda>n. True" exampleRaw "[1 \<mapsto> exampleRaw]" 1 2]
  from inst have full: "\<exists>s. Clone (\<lambda>n. True) exampleRaw = Some s \<and>
        mTime s = TimeUnit (Some 40) 1000 \<and> Elements (mBuffer s) = [1, 2, 3] \<and>
        Elements (mAlphaBuffer s) = [4] \<and> mTrackInfo s = Some 1 \<and> mCryptoInternal s = 5"
    by (cases "Clone (\<lambda>n. True) exampleRaw") (simp_all add: fields)
  then obtain s where s: "Clone (\<lambda>n. True) exampleRaw = Some s"
    by blast
  then have "fst (Clone_at (\<lambda>n. True) [1 \<mapsto> exampleRaw] 1 2) = Some 2"
    by (simp add: Clone_at_def)
  with full none show ?thesis
    by simp
qed

text \<open>
  Counterexample to C9 as stated: the sample at address 1, whose crypto metadata is 5,
  is cloned to address 2. When 9 is then assigned to the crypto metadata of the
  original, the original's is 9 and the clone's is still 5: the clone holds a copy and
  does not share the original's. The track info of both is the object at address 1.
\<close>

theorem Clone_crypto_counterexample:
  "fst (Clone_at (\<lambda>n. True) [1 \<mapsto> exampleRaw] 1 2) = Some 2 \<and>
   map_option mCryptoInternal
     (Writer_assign_mCrypto (snd (Clone_at (\<lambda>n. True) [1 \<mapsto> exampleRaw] 1 2)) 1 9 1) = Some 9 \<and>
   map_option mCryptoInternal
     (Writer_assign_mCrypto (snd (Clone_at (\<lambda>n. True) [1 \<mapsto> exampleRaw] 1 2)) 1 9 2) = Some 5 \<and>
   map_option mTrackInfo
     (Writer_assign_mCrypto (snd (Clone_at (\<lambda>n. True) [1 \<mapsto> exampleRaw] 1 2)) 1 9 1) =
     Some (Some 1) \<and>
   map_option mTrackInfo
     (Writer_assign_mCrypto (snd (Clone_at (\<lambda>n. True) [1 \<mapsto> exampleRaw] 1 2)) 1 9 2) =
     Some (Some 1)"
  by (simp add: Clone_at_def Clone_def Append_to_null Elements_def Writer_assign_mCrypto_def
      exampleRaw_def)


subsection \<open>Exactness of the time arithmetic\<close>

lemma CheckedInt64_Some: "CheckedInt64 v = Some w \<Longrightarrow> w = v"
  by (simp add: CheckedInt64_def split: if_splits)

lemma CheckedInt64_valid: "CheckedInt64 v \<noteq> None \<Longrightarrow> CheckedInt64 v = Some v"
  by (simp add: CheckedInt64_def split: if_splits)

lemma TimeUnit_plus_cases:
  assumes "IsValid (TimeUnit_plus a b)"
  obtains v w where "mTicks a = Some v" "mTicks b = Some w"
    "TimeUnit_plus a b =
       (if mBase a = mBase b then TimeUnit (Some (v + w)) (mBase a)
        else TimeUnit (Some (v * mBase b + w * mBase a)) (mBase a * mBase b))"
proof -
  from assms obtain v w where vw: "mTicks a = Some v" "mTicks b = Some w"
    by (cases "mTicks a"; cases "mTicks b") (auto simp: TimeUnit_plus_def IsValid_def)
  have "TimeUnit_plus a b =
       (if mBase a = mBase b then TimeUnit (Some (v + w)) (mBase a)
        else TimeUnit (Some (v * mBase b + w * mBase a)) (mBase a * mBase b))"
  proof (cases "mBase a = mBase b")
    case True
    with assms vw have "CheckedInt64 (v + w) \<noteq> None"
      by (simp add: TimeUnit_plus_def IsValid_def)
    with True vw show ?thesis
      by (simp add: TimeUnit_plus_def CheckedInt64_valid)
  next
    case False
    with assms vw obtain c where c: "CheckedInt64 (mBase a * mBase b) = Some c"
      by (cases "CheckedInt64 (mBase a * mBase b)") (simp_all add: TimeUnit_plus_def IsValid_def)
    then have "c = mBase a * mBase b"
      by (rule CheckedInt64_Some)
    moreover from assms vw False c have "CheckedInt64 (v * mBase b + w * mBase a) \<noteq> None"
      by (simp add: TimeUnit_plus_def IsValid_def)
    ultimately show ?thesis
      using False vw c by (simp add: TimeUnit_plus_def CheckedInt64_valid)
  qed
  with vw show thesis
    by (rule that)
qed

lemma TimeUnit_minus_cases:
  assumes "IsValid (TimeUnit_minus a b)"
  obtains v w where "mTicks a = Some v" "mTicks b = Some w"
    "TimeUnit_minus a b =
       (if mBase a = mBase b then TimeUnit (Some (v - w)) (mBase a)
        else TimeUnit (Some (v * mBase b - w * mBase a)) (mBase a * mBase b))"
proof -
  from assms obtain v w where vw: "mTicks a = Some v" "mTicks b = Some w"
    by (cases "mTicks a"; cases "mTicks b") (auto simp: TimeUnit_minus_def IsValid_def)
  have "TimeUnit_minus a b =
       (if mBase a = mBase b then TimeUnit (Some (v - w)) (mBase a)
        else TimeUnit (Some (v * mBase b - w * mBase a)) (mBase a * mBase b))"
  proof (cases "mBase a = mBase b")
    case True
    with assms vw have "CheckedInt64 (v - w) \<noteq> None"
      by (simp add: TimeUnit_minus_def IsValid_def)
    with True vw show ?thesis
      by (simp add: TimeUnit_minus_def CheckedInt64_valid)
  next
    case False
    with assms vw obtain c where c: "CheckedInt64 (mBase a * mBase b) = Some c"
      by (cases "CheckedInt64 (mBase a * mBase b)") (simp_all add: TimeUnit_minus_def IsValid_def)
    then have "c = mBase a * mBase b"
      by (rule CheckedInt64_Some)
    moreover from assms vw False c have "CheckedInt64 (v * mBase b - w * mBase a) \<noteq> None"
      by (simp add: TimeUnit_minus_def IsValid_def)
    ultimately show ?thesis
      using False vw c by (simp add: TimeUnit_minus_def CheckedInt64_valid)
  qed
  with vw show thesis
    by (rule that)
qed

lemma TimeUnit_plus_exact:
  assumes "IsValid (TimeUnit_plus a b)" "0 < mBase a" "0 < mBase b"
  shows "IsValid a" "IsValid b" "0 < mBase (TimeUnit_plus a b)"
    "ToRational (TimeUnit_plus a b) = ToRational a + ToRational b"
proof -
  from assms(1) obtain v w where vw: "mTicks a = Some v" "mTicks b = Some w"
    and sum: "TimeUnit_plus a b =
       (if mBase a = mBase b then TimeUnit (Some (v + w)) (mBase a)
        else TimeUnit (Some (v * mBase b + w * mBase a)) (mBase a * mBase b))"
    by (rule TimeUnit_plus_cases)
  from vw show "IsValid a" "IsValid b"
    by (simp_all add: IsValid_def)
  from sum assms(2,3) show "0 < mBase (TimeUnit_plus a b)"
    by simp
  show "ToRational (TimeUnit_plus a b) = ToRational a + ToRational b"
  proof (cases "mBase a = mBase b")
    case True
    with sum vw show ?thesis
      by (simp add: ToRational_def add_divide_distrib)
  next
    case False
    with sum vw assms(2,3) show ?thesis
      by (simp add: ToRational_def add_frac_eq)
  qed
qed

lemma TimeUnit_minus_exact:
  assumes "IsValid (TimeUnit_minus a b)" "0 < mBase a" "0 < mBase b"
  shows "IsValid a" "IsValid b" "0 < mBase (TimeUnit_minus a b)"
    "ToRational (TimeUnit_minus a b) = ToRational a - ToRational b"
proof -
  from assms(1) obtain v w where vw: "mTicks a = Some v" "mTicks b = Some w"
    and diff: "TimeUnit_minus a b =
       (if mBase a = mBase b then TimeUnit (Some (v - w)) (mBase a)
        else TimeUnit (Some (v * mBase b - w * mBase a)) (mBase a * mBase b))"
    by (rule TimeUnit_minus_cases)
  from vw show "IsValid a" "IsValid b"
    by (simp_all add: IsValid_def)
  from diff assms(2,3) show "0 < mBase (TimeUnit_minus a b)"
    by simp
  show "ToRational (TimeUnit_minus a b) = ToRational a - ToRational b"
  proof (cases "mBase a = mBase b")
    case True
    with diff vw show ?thesis
      by (simp add: ToRational_def diff_divide_distrib)
  next
    case False
    with diff vw assms(2,3) show ?thesis
      by (simp add: ToRational_def diff_frac_eq)
  qed
qed

lemma TimeUnit_less_iff:
  assumes "IsValid a" "IsValid b" "0 < mBase a" "0 < mBase b"
  shows "TimeUnit_less a b \<longleftrightarrow> ToRational a < ToRational b"
proof -
  from assms obtain v w where vw: "mTicks a = Some v" "mTicks b = Some w"
    by (auto simp: IsValid_def)
  have "ToRational a < ToRational b \<longleftrightarrow>
        (of_int (v * mBase b) :: rat) < of_int (w * mBase a)"
    using assms vw by (simp add: ToRational_def divide_simps mult.commute)
  also have "\<dots> \<longleftrightarrow> v * mBase b < w * mBase a"
    by (rule of_int_less_iff)
  finally show ?thesis
    using vw by (simp add: TimeUnit_less_def)
qed

lemma TimeUnit_equal_iff:
  assumes "IsValid a" "IsValid b" "0 < mBase a" "0 < mBase b"
  shows "TimeUnit_equal a b \<longleftrightarrow> ToRational a = ToRational b"
proof -
  from assms obtain v w where vw: "mTicks a = Some v" "mTicks b = Some w"
    by (auto simp: IsValid_def)
  have "ToRational a = ToRational b \<longleftrightarrow>
        (of_int (v * mBase b) :: rat) = of_int (w * mBase a)"
    using assms vw by (simp add: ToRational_def divide_simps mult.commute)
  also have "\<dots> \<longleftrightarrow> v * mBase b = w * mBase a"
    by (rule of_int_eq_iff)
  finally show ?thesis
    using vw by (simp add: TimeUnit_equal_def)
qed


lemma TimeUnit_plus_valid_args:
  assumes "IsValid (TimeUnit_plus a b)"
  shows "IsValid a" "IsValid b"
proof -
  from assms obtain v w where "mTicks a = Some v" "mTicks b = Some w"
    by (rule TimeUnit_plus_cases)
  then show "IsValid a" "IsValid b"
    by (simp_all add: IsValid_def)
qed

lemma TimeUnit_minus_valid_args:
  assumes "IsValid (TimeUnit_minus a b)"
  shows "IsValid a" "IsValid b"
proof -
  from assms obtain v w where "mTicks a = Some v" "mTicks b = Some w"
    by (rule TimeUnit_minus_cases)
  then show "IsValid a" "IsValid b"
    by (simp_all add: IsValid_def)
qed



subsection \<open>Updating the times of a video frame\<close>

text \<open>
  C8, as the code has it. The claim reads: \<open>UpdateTimestamp\<close> and \<open>UpdateDuration\<close> both
  recompute the paired field so that the end time stays what it was. Only
  \<open>UpdateTimestamp\<close> does. Under their assertions (the new timestamp, the recomputed
  duration and the new duration are not negative), with positive bases and no
  overflow in the recomputed end time: \<open>UpdateTimestamp\<close> sets the timestamp and
  recomputes the duration so that the end time equals the end time before the call;
  \<open>UpdateDuration\<close> sets the duration and leaves the timestamp alone, so that the end
  time becomes the timestamp plus the new duration.
\<close>

theorem UpdateTimestamp_preserves_end:
  assumes "UpdateTimestamp_assert v aTimestamp" "UpdateDuration_assert aDuration"
    and "0 < mBase (mTime v)" "0 < mBase (mDuration v)" "0 < mBase aTimestamp"
    and "IsValid (GetEndTime (UpdateTimestamp v aTimestamp))"
  shows "mTime (UpdateTimestamp v aTimestamp) = aTimestamp \<and>
         TimeUnit_equal (GetEndTime (UpdateTimestamp v aTimestamp)) (GetEndTime v) \<and>
         mTime (UpdateDuration v aDuration) = mTime v \<and>
         mDuration (UpdateDuration v aDuration) = aDuration \<and>
         GetEndTime (UpdateDuration v aDuration) = TimeUnit_plus (mTime v) aDuration"
proof -
  let ?e = "GetEndTime v"
  let ?u = "TimeUnit_minus ?e aTimestamp"
  have new_end: "GetEndTime (UpdateTimestamp v aTimestamp) = TimeUnit_plus aTimestamp ?u"
    by (simp add: UpdateTimestamp_def GetEndTime_def Let_def)
  with assms(6) have valid_sum: "IsValid (TimeUnit_plus aTimestamp ?u)"
    by simp
  then have valid_u: "IsValid ?u"
    by (rule TimeUnit_plus_valid_args)
  then have valid_e: "IsValid ?e"
    by (rule TimeUnit_minus_valid_args)
  then have valid_e': "IsValid (TimeUnit_plus (mTime v) (mDuration v))"
    by (simp add: GetEndTime_def)
  have e: "0 < mBase ?e" "ToRational ?e = ToRational (mTime v) + ToRational (mDuration v)"
    unfolding GetEndTime_def
    using TimeUnit_plus_exact(3,4) [OF valid_e' assms(3,4)] by blast+
  have u: "0 < mBase ?u" "ToRational ?u = ToRational ?e - ToRational aTimestamp"
    using TimeUnit_minus_exact(3,4) [OF valid_u e(1) assms(5)] by blast+
  have s: "0 < mBase (TimeUnit_plus aTimestamp ?u)"
    "ToRational (TimeUnit_plus aTimestamp ?u) = ToRational aTimestamp + ToRational ?u"
    using TimeUnit_plus_exact(3,4) [OF valid_sum assms(5) u(1)] by blast+
  from s(2) u(2) have "ToRational (TimeUnit_plus aTimestamp ?u) = ToRational ?e"
    by simp
  then have "TimeUnit_equal (TimeUnit_plus aTimestamp ?u) ?e"
    using TimeUnit_equal_iff [OF valid_sum valid_e s(1) e(1)] by blast
  with new_end show ?thesis
    by (simp add: UpdateTimestamp_def UpdateDuration_def GetEndTime_def Let_def)
qed

text \<open>
  Witness for C8: a frame from 0 ms that lasts 40 ms is moved to start at 10 ms and
  still ends at 40 ms.
\<close>

theorem UpdateTimestamp_preserves_end_witness:
  "UpdateTimestamp_assert
     (VideoData_ctor 0 (TimeUnit (Some 0) 1000) (TimeUnit (Some 40) 1000) False TimeUnit_Zero
        \<lparr>size_width = 16, size_height = 16\<rparr> 0)
     (TimeUnit (Some 10) 1000) \<and>
   UpdateDuration_assert (TimeUnit (Some 20) 1000) \<and>
   IsValid (GetEndTime (UpdateTimestamp
     (VideoData_ctor 0 (TimeUnit (Some 0) 1000) (TimeUnit (Some 40) 1000) False TimeUnit_Zero
        \<lparr>size_width = 16, size_height = 16\<rparr> 0)
     (TimeUnit (Some 10) 1000))) \<and>
   TimeUnit_equal
     (GetEndTime (UpdateTimestamp
        (VideoData_ctor 0 (TimeUnit (Some 0) 1000) (TimeUnit (Some 40) 1000) False TimeUnit_Zero
           \<lparr>size_width = 16, size_height = 16\<rparr> 0)
        (TimeUnit (Some 10) 1000)))
     (TimeUnit (Some 40) 1000)"
proof -
  let ?v = "VideoData_ctor 0 (TimeUnit (Some 0) 1000) (TimeUnit (Some 40) 1000) False
              TimeUnit_Zero \<lparr>size_width = 16, size_height = 16\<rparr> 0"
  let ?t = "TimeUnit (Some 10) 1000"
  have pre: "UpdateTimestamp_assert ?v ?t" "UpdateDuration_assert (TimeUnit (Some 20) 1000)"
    "0 < mBase (mTime ?v)" "0 < mBase (mDuration ?v)" "0 < mBase ?t"
    "IsValid (GetEndTime (UpdateTimestamp ?v ?t))"
    by (simp_all add: UpdateTimestamp_assert_def UpdateDuration_assert_def UpdateTimestamp_def
        VideoData_ctor_def GetEndTime_def TimeUnit_plus_def TimeUnit_minus_def CheckedInt64_def
        IsNegative_def IsValid_def Let_def)
  have "GetEndTime ?v = TimeUnit (Some 40) 1000"
    by (simp add: VideoData_ctor_def GetEndTime_def TimeUnit_plus_def CheckedInt64_def)
  with pre UpdateTimestamp_preserves_end [OF pre] show ?thesis
    by simp
qed

text \<open>
  Counterexample to C8 as stated: the same frame, which ends at 40 ms, ends at 20 ms
  after \<open>UpdateDuration\<close> with 20 ms, a duration its assertion accepts.
\<close>

theorem UpdateDuration_counterexample:
  "UpdateDuration_assert (TimeUnit (Some 20) 1000) \<and>
   GetEndTime
     (VideoData_ctor 0 (TimeUnit (Some 0) 1000) (TimeUnit (Some 40) 1000) False TimeUnit_Zero
        \<lparr>size_width = 16, size_height = 16\<rparr> 0) = TimeUnit (Some 40) 1000 \<and>
   GetEndTime (UpdateDuration
     (VideoData_ctor 0 (TimeUnit (Some 0) 1000) (TimeUnit (Some 40) 1000) False TimeUnit_Zero
        \<lparr>size_width = 16, size_height = 16\<rparr> 0)
     (TimeUnit (Some 20) 1000)) = TimeUnit (Some 20) 1000 \<and>
   \<not> TimeUnit_equal (TimeUnit (Some 20) 1000) (TimeUnit (Some 40) 1000)"
  by (simp add: UpdateDuration_assert_def UpdateDuration_def VideoData_ctor_def GetEndTime_def
      TimeUnit_plus_def TimeUnit_equal_def CheckedInt64_def IsNegative_def)



subsection \<open>The invariant of the original range is kept\<close>

text \<open>
  The invariant of the original range is established by the constructor and kept by
  \<open>MoveableData\<close>. \<open>SetTrimWindow\<close> keeps it whenever the end time of the frame it
  leaves is a valid time; when that sum overflows, the invariant is lost.
\<close>

lemma AudioData_ctor_invariant:
  assumes "AudioData_ctor aOffset aTime aData aChannels aRate aChannelMap = Done a"
    and "0 < mBase aTime"
    and "IsValid (TimeUnit_plus aTime
           (TimeUnit (Some (int ((Length aData div aChannels) mod 2 ^ 32))) (int aRate)))"
  shows "AudioData_invariant a"
proof -
  from assms(1) have "0 < aChannels" "0 < aRate"
    and a: "a = \<lparr>mType = AUDIO_DATA, mOffset = aOffset, mTime = aTime, mTimecode = aTime,
                 mDuration = TimeUnit (Some (int ((Length aData div aChannels) mod 2 ^ 32)))
                               (int aRate),
                 mKeyframe = False,
                 mChannels = aChannels, mChannelMap = aChannelMap, mRate = aRate,
                 mOriginalTime = aTime, mAudioData = aData, mTrimWindow = None,
                 mFrames = (Length aData div aChannels) mod 2 ^ 32, mDataOffset = 0\<rparr>"
    by (auto simp: AudioData_ctor_def Let_def split: if_splits)
  with assms(2,3) show ?thesis
    by (simp add: AudioData_invariant_def GetEndTime_def OriginalEndTime_def
        OriginalDuration_def)
qed

lemma MoveableData_invariant:
  assumes "MoveableData alloc a = Done (buf, a')"
  shows "AudioData_invariant a'"
  using assms
  by (auto simp: MoveableData_def AudioData_invariant_def split: outcome.splits prod.splits)

lemma sdiv_nonneg: "0 \<le> k \<Longrightarrow> 0 < l \<Longrightarrow> k sdiv l = k div (l::int)"
  by (simp add: signed_divide_int_def sgn_if)

lemma ToTicksAtRate_le:
  assumes "0 < mBase t" "0 \<le> ToRational t" "0 < r"
  shows "0 \<le> ToTicksAtRate t r" "of_int (ToTicksAtRate t r) \<le> ToRational t * of_int r"
proof -
  have "0 \<le> ToTicksAtRate t r \<and> of_int (ToTicksAtRate t r) \<le> ToRational t * of_int r"
  proof (cases "mTicks t")
    case None
    then show ?thesis
      by (simp add: ToTicksAtRate_def ToRational_def)
  next
    case (Some v)
    with assms(1,2) have v: "0 \<le> v"
      by (simp add: ToRational_def zero_le_divide_iff)
    with assms(3) have vr: "0 \<le> v * r"
      by simp
    then have ticks: "ToTicksAtRate t r = (v * r) div mBase t"
      using Some assms(1) by (simp add: ToTicksAtRate_def sdiv_nonneg)
    have "(of_int ((v * r) div mBase t) :: rat) = of_int \<lfloor>(of_int (v * r) :: rat) / of_int (mBase t)\<rfloor>"
      by (simp only: floor_divide_of_int_eq)
    also have "\<dots> \<le> of_int (v * r) / of_int (mBase t)"
      by (rule of_int_floor_le)
    also have "\<dots> = ToRational t * of_int r"
      using Some by (simp add: ToRational_def)
    finally have "(of_int (ToTicksAtRate t r) :: rat) \<le> ToRational t * of_int r"
      using ticks by simp
    moreover have "0 \<le> ToTicksAtRate t r"
      using ticks vr assms(1) by (simp add: pos_imp_zdiv_nonneg_iff)
    ultimately show ?thesis
      by simp
  qed
  then show "0 \<le> ToTicksAtRate t r" "of_int (ToTicksAtRate t r) \<le> ToRational t * of_int r"
    by simp_all
qed

lemma SetTrimWindow_cases:
  assumes "SetTrimWindow a aTrim = Done (ok, a')"
  obtains (unchanged) "a' = a"
  | (trimmed) n where
      "mAudioData a \<noteq> None"
      "\<not> TimeUnit_less (mStart aTrim) (mOriginalTime a)"
      "\<not> TimeUnit_greater (mEnd aTrim) (GetEndTime a)"
      "IsValid (TimeUnit_minus (mStart aTrim) (mOriginalTime a))"
      "IsValid (TimeUnit_minus (mEnd aTrim) (mOriginalTime a))"
      "n = 0 \<or>
       n = nat (ToTicksAtRate
                  (TimeUnit_minus (TimeUnit_minus (mEnd aTrim) (mOriginalTime a))
                     (TimeUnit_minus (mStart aTrim) (mOriginalTime a)))
                  (int (mRate a)) mod 2 ^ 32)"
      "mTime a' = TimeUnit_plus (mOriginalTime a) (TimeUnit_minus (mStart aTrim) (mOriginalTime a))"
      "mDuration a' = TimeUnit (Some (int n)) (int (mRate a))"
      "mOriginalTime a' = mOriginalTime a" "mAudioData a' = mAudioData a"
      "mRate a' = mRate a" "mChannels a' = mChannels a"
proof (cases "a' = a")
  case True
  then show thesis
    by (rule unchanged)
next
  case changed: False
  let ?tb = "TimeUnit_minus (mStart aTrim) (mOriginalTime a)"
  let ?ta = "TimeUnit_minus (mEnd aTrim) (mOriginalTime a)"
  let ?fc = "ToTicksAtRate (TimeUnit_minus ?ta ?tb) (int (mRate a))"
  let ?upd = "\<lambda>n. a\<lparr>mTime := TimeUnit_plus (mOriginalTime a) ?tb,
                      mDuration := TimeUnit (Some (int n)) (int (mRate a)),
                      mTrimWindow := Some aTrim, mFrames := n,
                      mDataOffset :=
                        (nat (ToTicksAtRate ?tb (int (mRate a)) mod 2 ^ 64) * mChannels a)
                          mod 2 ^ 64\<rparr>"
  have c1: "mAudioData a \<noteq> None"
  proof
    assume "mAudioData a = None"
    then have "SetTrimWindow a aTrim = Done (False, a)"
      by (simp add: SetTrimWindow_def)
    with assms changed show False
      by simp
  qed
  have c2: "\<not> (TimeUnit_less (mStart aTrim) (mOriginalTime a) \<or>
               TimeUnit_greater (mEnd aTrim) (GetEndTime a))"
  proof
    assume "TimeUnit_less (mStart aTrim) (mOriginalTime a) \<or>
            TimeUnit_greater (mEnd aTrim) (GetEndTime a)"
    with c1 have "SetTrimWindow a aTrim = Done (False, a)"
      by (simp add: SetTrimWindow_def)
    with assms changed show False
      by simp
  qed
  have c3: "\<not> (\<not> IsValid ?tb \<or> \<not> IsValid ?ta)"
  proof
    assume "\<not> IsValid ?tb \<or> \<not> IsValid ?ta"
    with c1 c2 have "SetTrimWindow a aTrim = Done (False, a)"
      by (simp add: SetTrimWindow_def Let_def)
    with assms changed show False
      by simp
  qed
  have c4: "\<not> (mTrimWindow a = None \<and> IsZero ?tb \<and> TimeUnit_equal ?ta (mDuration a))"
  proof
    assume "mTrimWindow a = None \<and> IsZero ?tb \<and> TimeUnit_equal ?ta (mDuration a)"
    with c1 c2 c3 have "SetTrimWindow a aTrim = Done (True, a)"
      by (simp add: SetTrimWindow_def Let_def)
    with assms changed show False
      by simp
  qed
  have "SetTrimWindow a aTrim =
      (if mChannels a = 0 then Fatal DivisionByZero
       else if ?fc > int (Length (mAudioData a) div mChannels a)
       then (if IsBase ?tb (int (mRate a))
             then Fatal (ReleaseAssert ''!trimBefore.IsBase(mRate)'')
             else Done (True, ?upd 0))
       else Done (True, ?upd (nat (?fc mod 2 ^ 32))))"
    apply (simp only: SetTrimWindow_def Let_def if_not_P [OF c1] if_not_P [OF c2]
        if_not_P [OF c3] if_not_P [OF c4])
    apply simp
    done
  with assms have "a' = ?upd 0 \<or> a' = ?upd (nat (?fc mod 2 ^ 32))"
    by (simp split: if_splits)
  then show thesis
  proof
    assume "a' = ?upd 0"
    with c1 c2 c3 show thesis
      by (intro trimmed [of 0]) simp_all
  next
    assume "a' = ?upd (nat (?fc mod 2 ^ 32))"
    with c1 c2 c3 show thesis
      by (intro trimmed [of "nat (?fc mod 2 ^ 32)"]) simp_all
  qed
qed

lemma SetTrimWindow_invariant:
  assumes inv: "AudioData_invariant a"
    and res: "SetTrimWindow a aTrim = Done (ok, a')"
    and pre: "SetTrimWindow_assert aTrim" "0 < mBase (mStart aTrim)" "0 < mBase (mEnd aTrim)"
    and valid: "IsValid (GetEndTime a')"
  shows "AudioData_invariant a'"
  using res
proof (cases rule: SetTrimWindow_cases)
  case unchanged
  with inv show ?thesis
    by simp
next
  case (trimmed n)
  let ?o = "mOriginalTime a"
  let ?s = "mStart aTrim"
  let ?e = "mEnd aTrim"
  let ?tb = "TimeUnit_minus ?s ?o"
  let ?ta = "TimeUnit_minus ?e ?o"
  let ?d = "TimeUnit_minus ?ta ?tb"
  let ?r = "int (mRate a)"
  from inv trimmed(1) have i: "0 < mBase (mTime a)" "0 < mBase (mDuration a)"
    "0 < mBase ?o" "0 < mRate a" "0 < mChannels a"
    "IsValid (GetEndTime a)" "IsValid (OriginalEndTime a)"
    "ToRational (GetEndTime a) \<le> ToRational (OriginalEndTime a)"
    by (simp_all add: AudioData_invariant_def)
  from pre(1) have valid_s: "IsValid ?s" and valid_e: "IsValid ?e"
    and ordered: "\<not> TimeUnit_less ?e ?s"
    by (simp_all add: SetTrimWindow_assert_def TimeUnit_greater_def)
  note tb = TimeUnit_minus_exact(3,4) [OF trimmed(4) pre(2) i(3)]
  note ta = TimeUnit_minus_exact(3,4) [OF trimmed(5) pre(3) i(3)]
  have span: "ToRational ?s \<le> ToRational ?e"
    using ordered TimeUnit_less_iff [OF valid_e valid_s pre(3,2)] by simp
  have frames: "of_nat n \<le> (ToRational ?e - ToRational ?s) * of_int ?r"
  proof (cases "n = 0")
    case True
    with span i(4) show ?thesis
      by simp
  next
    case False
    with trimmed(6) have n: "n = nat (ToTicksAtRate ?d ?r mod 2 ^ 32)"
      by simp
    have d: "0 < mBase ?d \<or> mTicks ?d = None" "ToRational ?d \<le> ToRational ?e - ToRational ?s"
      "0 \<le> ToRational ?d"
    proof -
      show "0 < mBase ?d \<or> mTicks ?d = None"
        using TimeUnit_minus_exact(3) [OF _ ta(1) tb(1)] by (auto simp: IsValid_def)
      show "ToRational ?d \<le> ToRational ?e - ToRational ?s" "0 \<le> ToRational ?d"
        using TimeUnit_minus_exact(4) [OF _ ta(1) tb(1)] ta(2) tb(2) span
        by (cases "mTicks ?d"; simp add: IsValid_def ToRational_def)+
    qed
    have ticks: "0 \<le> ToTicksAtRate ?d ?r \<and>
                 (of_int (ToTicksAtRate ?d ?r) :: rat) \<le> ToRational ?d * of_int ?r"
    proof (cases "mTicks ?d")
      case None
      then show ?thesis
        by (simp add: ToTicksAtRate_def ToRational_def)
    next
      case (Some v)
      with d(1) have "0 < mBase ?d"
        by simp
      moreover have "0 < ?r"
        using i(4) by simp
      ultimately show ?thesis
        using ToTicksAtRate_le [of ?d ?r] d(3) by simp
    qed
    have "ToTicksAtRate ?d ?r mod 2 ^ 32 \<le> ToTicksAtRate ?d ?r"
      using ticks by (simp add: zmod_le_nonneg_dividend)
    moreover have "0 \<le> ToTicksAtRate ?d ?r mod 2 ^ 32"
      by simp
    ultimately have "(of_nat n :: rat) \<le> of_int (ToTicksAtRate ?d ?r)"
      unfolding n by (simp add: of_nat_nat)
    also have "\<dots> \<le> ToRational ?d * of_int ?r"
      using ticks by simp
    also have "\<dots> \<le> (ToRational ?e - ToRational ?s) * of_int ?r"
      using d(2) i(4) by (simp add: mult_right_mono)
    finally show ?thesis .
  qed
  have end': "GetEndTime a' = TimeUnit_plus (TimeUnit_plus ?o ?tb) (TimeUnit (Some (int n)) ?r)"
    by (simp add: GetEndTime_def trimmed(7,8))
  with valid have valid_sum: "IsValid (TimeUnit_plus (TimeUnit_plus ?o ?tb) (TimeUnit (Some (int n)) ?r))"
    by simp
  then have valid_time: "IsValid (TimeUnit_plus ?o ?tb)"
    by (rule TimeUnit_plus_valid_args)
  note time = TimeUnit_plus_exact(3,4) [OF valid_time i(3) tb(1)]
  have pos_r: "0 < mBase (TimeUnit (Some (int n)) ?r)"
    using i(4) by simp
  note sum = TimeUnit_plus_exact(3,4) [OF valid_sum time(1) pos_r]
  have "(0::rat) < of_int ?r"
    using i(4) by simp
  with frames have share: "(of_nat n :: rat) / of_int ?r \<le> ToRational ?e - ToRational ?s"
    by (simp only: pos_divide_le_eq)
  have "ToRational (GetEndTime a') = ToRational ?s + of_nat n / of_int ?r"
    using end' sum(2) time(2) tb(2) by (simp add: ToRational_def)
  with share have end_le: "ToRational (GetEndTime a') \<le> ToRational ?e"
    by linarith
  have "IsValid (TimeUnit_plus (mTime a) (mDuration a))"
    using i(6) by (simp add: GetEndTime_def)
  from TimeUnit_plus_exact(3) [OF this i(1,2)] have pos_ge: "0 < mBase (GetEndTime a)"
    by (simp add: GetEndTime_def)
  have "\<not> TimeUnit_less (GetEndTime a) ?e"
    using trimmed(3) by (simp add: TimeUnit_greater_def)
  then have "ToRational ?e \<le> ToRational (GetEndTime a)"
    using TimeUnit_less_iff [OF i(6) valid_e pos_ge pre(3)] by simp
  with end_le i(8) have le: "ToRational (GetEndTime a') \<le> ToRational (OriginalEndTime a)"
    by simp
  have same: "OriginalEndTime a' = OriginalEndTime a"
    by (simp add: OriginalEndTime_def OriginalDuration_def trimmed(9-12))
  show ?thesis
    unfolding AudioData_invariant_def same
    using le valid i(3,4,5,7) time(1) trimmed(7-12) by simp
qed

subsection \<open>Trimming an audio frame\<close>
















end
